theory Spec2Isabelle
  imports Complex_Main
begin

section \<open>Python values, exceptions and diagnostics\<close>

text \<open>
  The embedding follows \<^verbatim>\<open>coupling/powerplant.py\<close>. Python floats are modelled as
  \<^typ>\<open>real\<close>: the literals \<^verbatim>\<open>1e-5\<close>, \<^verbatim>\<open>1e-4\<close> and \<^verbatim>\<open>1e-3\<close> are the exact rationals,
  and rounding, infinities and NaN are outside the model. A raised exception is the
  \<open>Inl\<close> branch of a sum.
\<close>

datatype py_error =
    ValueError string
  | NameError string
  | TypeError
  | KeyError string
  | IndexError
  | AttributeError string
  | ZeroDivisionError
  | OSError string
  | External string

section \<open>The root finder \<^verbatim>\<open>newton\<close>\<close>

text \<open>
  \<^verbatim>\<open>kwargs.get('val0', 200)\<close> and its three siblings: a keyword that is absent is
  \<open>None\<close> and takes the default of the source.
\<close>

record newton_kwargs =
  val0 :: "real option"
  valmin :: "real option"
  valmax :: "real option"
  imax :: "int option"

definition no_kwargs :: newton_kwargs where
  "no_kwargs = \<lparr>val0 = None, valmin = None, valmax = None, imax = None\<rparr>"

definition kwargs_get :: "'a option \<Rightarrow> 'a \<Rightarrow> 'a" where
  "kwargs_get v d = (case v of None \<Rightarrow> d | Some x \<Rightarrow> x)"

text \<open>
  The \<^verbatim>\<open>while abs(res) >= 1e-5\<close> loop of \<^verbatim>\<open>newton\<close>, on the loop variables
  \<open>res\<close>, \<open>val\<close> and \<open>i\<close>. The loop returns the value the source returns together
  with the counter \<open>i\<close> at the moment of return, so that the exit through
  \<^verbatim>\<open>if i > imax: return 0\<close> can be told from the exit through the loop condition.
  Dividing by a derivative of zero raises, as Python's float division does.
\<close>

function newton_loop ::
  "(real \<Rightarrow> real) \<Rightarrow> (real \<Rightarrow> real) \<Rightarrow> real \<Rightarrow> real \<Rightarrow> real \<Rightarrow> int
    \<Rightarrow> real \<Rightarrow> real \<Rightarrow> int \<Rightarrow> py_error + (real \<times> int)" where
  "newton_loop f f' k vmin vmax imx res val i =
     (if \<bar>res\<bar> \<ge> 1 / 100000 then
        (let res1 = k - f val in
         if f' val = 0 then Inl ZeroDivisionError
         else
           (let val1 = val + res1 / f' val;
                val2 = (if val1 < vmin then vmin else val1);
                val3 = (if val2 > vmax then vmax else val2);
                i1 = i + 1
            in if i1 > imx then Inr (0, i1)
               else newton_loop f f' k vmin vmax imx res1 val3 i1))
      else Inr (val, i))"
  by pat_completeness auto
termination
  by (relation "measure (\<lambda>(f, f', k, vmin, vmax, imx, res, val, i). nat (imx + 1 - i))")
     auto

declare newton_loop.simps [simp del]

definition newton_run ::
  "('p \<Rightarrow> real \<Rightarrow> real) \<Rightarrow> ('p \<Rightarrow> real \<Rightarrow> real) \<Rightarrow> 'p \<Rightarrow> real \<Rightarrow> newton_kwargs
    \<Rightarrow> py_error + (real \<times> int)" where
  "newton_run func deriv params k kwargs =
     newton_loop (func params) (deriv params) k
       (kwargs_get (valmin kwargs) 0) (kwargs_get (valmax kwargs) 3000)
       (kwargs_get (imax kwargs) 10) 1 (kwargs_get (val0 kwargs) 200) 0"

definition newton ::
  "('p \<Rightarrow> real \<Rightarrow> real) \<Rightarrow> ('p \<Rightarrow> real \<Rightarrow> real) \<Rightarrow> 'p \<Rightarrow> real \<Rightarrow> newton_kwargs
    \<Rightarrow> py_error + real" where
  "newton func deriv params k kwargs =
     (case newton_run func deriv params k kwargs of
        Inl e \<Rightarrow> Inl e
      | Inr (v, i) \<Rightarrow> Inr v)"

section \<open>The spline strategy's residual functions\<close>

text \<open>
  The fitted surface is built by \<^verbatim>\<open>scipy.interpolate.RectBivariateSpline\<close>, a library
  outside the repository: it is taken as given, as its evaluation \<^verbatim>\<open>ev(x, y)\<close> and its
  partial derivative along the first axis \<^verbatim>\<open>ev(x, y, dx=1)\<close>.
\<close>

record spline =
  ev :: "real \<Rightarrow> real \<Rightarrow> real"
  ev_dx :: "real \<Rightarrow> real \<Rightarrow> real"

text \<open>\<^verbatim>\<open>params\<close> is the list \<^verbatim>\<open>[func, x1, x2]\<close>.\<close>

fun reverse_2d :: "spline \<times> real \<times> real \<Rightarrow> real \<Rightarrow> real" where
  "reverse_2d (func, x1, x2) y = x2 - ev func y x1"

fun reverse_2d_deriv :: "spline \<times> real \<times> real \<Rightarrow> real \<Rightarrow> real" where
  "reverse_2d_deriv (func, x1, x2) y = - ev_dx func y x1"

section \<open>The external network solver\<close>

text \<open>
  A tespy network, as far as \<^verbatim>\<open>powerplant.py\<close> touches it. Busses, connections and
  components are objects: a network holds them in a store indexed by references, so that
  \<^verbatim>\<open>imp_busses[key]\<close>, \<^verbatim>\<open>busses[0]\<close> and the attribute \<^verbatim>\<open>self.cas_charge\<close> can name the
  same object. A value \<^verbatim>\<open>np.nan\<close> given to \<^verbatim>\<open>set_attr\<close> (leave the quantity free) is
  \<open>None\<close>.
\<close>

type_synonym ref = nat

record bus =
  bus_P :: "real option"
  bus_P_val :: real

record connection =
  conn_p :: "real option"
  conn_m :: "real option"
  conn_m_val_SI :: real
  conn_s_label :: string
  conn_t_label :: string

record network =
  busses :: "ref list"
  imp_busses :: "string \<rightharpoonup> ref"
  bus_obj :: "ref \<Rightarrow> bus"
  conns :: "ref list"
  imp_conns :: "string \<rightharpoonup> ref"
  conn_obj :: "ref \<Rightarrow> connection"
  imp_comps :: "string \<rightharpoonup> ref"
  comp_L :: "ref \<Rightarrow> real option"
  res :: "real list"

text \<open>
  The three shapes of \<^verbatim>\<open>solve\<close> the source calls: \<^verbatim>\<open>solve('design')\<close>,
  \<^verbatim>\<open>solve(mode='offdesign', design_path=...)\<close> and
  \<^verbatim>\<open>solve(mode='offdesign', init_file=..., design_file=...)\<close>. The solver itself is a
  parameter of the model: it reads the saved states, changes the network and may raise.
\<close>

datatype solve_mode =
    Design
  | Offdesign_design_path string
  | Offdesign_init_file string string

type_synonym solver =
  "(string \<rightharpoonup> network) \<Rightarrow> solve_mode \<Rightarrow> network \<Rightarrow> py_error option \<times> network"

definition lookup :: "(string \<rightharpoonup> 'a) \<Rightarrow> string \<Rightarrow> py_error + 'a" where
  "lookup d key = (case d key of None \<Rightarrow> Inl (KeyError key) | Some v \<Rightarrow> Inr v)"

definition bus_set_P :: "ref \<Rightarrow> real option \<Rightarrow> network \<Rightarrow> network" where
  "bus_set_P b v n = n\<lparr>bus_obj := (bus_obj n)(b := (bus_obj n b)\<lparr>bus_P := v\<rparr>)\<rparr>"

definition conn_set_p :: "ref \<Rightarrow> real option \<Rightarrow> network \<Rightarrow> network" where
  "conn_set_p c v n = n\<lparr>conn_obj := (conn_obj n)(c := (conn_obj n c)\<lparr>conn_p := v\<rparr>)\<rparr>"

definition conn_set_m :: "ref \<Rightarrow> real option \<Rightarrow> network \<Rightarrow> network" where
  "conn_set_m c v n = n\<lparr>conn_obj := (conn_obj n)(c := (conn_obj n c)\<lparr>conn_m := v\<rparr>)\<rparr>"

text \<open>\<^verbatim>\<open>nw.imp_busses[key].set_attr(P=v)\<close>\<close>

definition imp_bus_set_P :: "string \<Rightarrow> real option \<Rightarrow> network \<Rightarrow> py_error + network" where
  "imp_bus_set_P key v n =
     (case lookup (imp_busses n) key of
        Inl e \<Rightarrow> Inl e
      | Inr b \<Rightarrow> Inr (bus_set_P b v n))"

text \<open>\<^verbatim>\<open>nw.imp_conns[key].set_attr(p=pv, m=mv)\<close>\<close>

definition imp_conn_set_p_m ::
  "string \<Rightarrow> real option \<Rightarrow> real option \<Rightarrow> network \<Rightarrow> py_error + network" where
  "imp_conn_set_p_m key pv mv n =
     (case lookup (imp_conns n) key of
        Inl e \<Rightarrow> Inl e
      | Inr c \<Rightarrow> Inr (conn_set_m c mv (conn_set_p c pv n)))"

text \<open>\<^verbatim>\<open>nw.imp_comps[key].set_attr(L=v)\<close>\<close>

definition imp_comp_set_L :: "string \<Rightarrow> real option \<Rightarrow> network \<Rightarrow> py_error + network" where
  "imp_comp_set_L key v n =
     (case lookup (imp_comps n) key of
        Inl e \<Rightarrow> Inl e
      | Inr c \<Rightarrow> Inr (n\<lparr>comp_L := (comp_L n)(c := v)\<rparr>))"

text \<open>\<^verbatim>\<open>nw.imp_conns[key].m.val_SI\<close>\<close>

definition imp_conn_m_val_SI :: "string \<Rightarrow> network \<Rightarrow> py_error + real" where
  "imp_conn_m_val_SI key n =
     (case lookup (imp_conns n) key of
        Inl e \<Rightarrow> Inl e
      | Inr c \<Rightarrow> Inr (conn_m_val_SI (conn_obj n c)))"

text \<open>\<^verbatim>\<open>nw.busses[0].set_attr(P=v)\<close> and \<^verbatim>\<open>nw.busses[0].P.val\<close>\<close>

definition first_bus_set_P :: "real option \<Rightarrow> network \<Rightarrow> py_error + network" where
  "first_bus_set_P v n =
     (case busses n of
        [] \<Rightarrow> Inl IndexError
      | b # bs \<Rightarrow> Inr (bus_set_P b v n))"

definition first_bus_P_val :: "network \<Rightarrow> py_error + real" where
  "first_bus_P_val n =
     (case busses n of
        [] \<Rightarrow> Inl IndexError
      | b # bs \<Rightarrow> Inr (bus_P_val (bus_obj n b)))"

text \<open>\<^verbatim>\<open>nw.res[-1]\<close>\<close>

definition res_last :: "network \<Rightarrow> py_error + real" where
  "res_last n = (if res n = [] then Inl IndexError else Inr (last (res n)))"

section \<open>The plant instance\<close>

text \<open>
  What \<^verbatim>\<open>get_mass_flow\<close> returns: the pair \<^verbatim>\<open>(mass_flow, power_actual)\<close> on the
  tespy path and on the pressure checks, the bare mass flow on the spline path.
\<close>

datatype retval = Tuple2 real real | Scalar real

text \<open>
  Diagnostics are part of the state: every \<^verbatim>\<open>logging\<close> call and every \<^verbatim>\<open>print\<close> appends
  an entry, the channel it is written to and the message with the numbers it formats.
\<close>

datatype channel = Logging_error | Logging_warning | Logging_info | Stdout

datatype message =
    Pressure_below_minimum real real
  | Pressure_above_maximum real real
  | No_solution real real
  | Mass_flow_below_minimum real real
  | Mass_flow_above_maximum real real
  | Calculation_successful real real real
  | Input_massflow_below_minimum real real
  | Input_massflow_above_maximum real real
  | Nominal_mass_flow string real real real

text \<open>The calls made to the solver library, in order, on either network of the instance.\<close>

datatype which = Charge | Discharge

datatype call = Solve which solve_mode | Save which string

text \<open>
  The control file \<^verbatim>\<open><scenario>.powerplant_ctrl.json\<close>, as the keys the source reads
  from it. \<^verbatim>\<open>self.__dict__.update(json.load(f))\<close> makes each key an attribute of the
  instance, so the instance extends this record.
\<close>

record ctrl =
  "method" :: string
  p_nom :: real
  power_nominal_charge :: real
  power_nominal_discharge :: real
  massflow_min_rel :: real
  massflow_charge_max :: real
  massflow_discharge_max :: real
  power_bus_charge :: string
  power_bus_discharge :: string
  storage_connection_charge :: string
  storage_connection_discharge :: string
  pipe :: string
  spline_charge_path :: string
  spline_discharge_path :: string
  tespy_charge_path :: string
  tespy_discharge_path :: string

text \<open>
  The other attributes of \<^verbatim>\<open>self\<close>. Those from \<^verbatim>\<open>min_well_depth\<close> to \<^verbatim>\<open>wdir\<close> are set
  from the constructor's arguments. The splines are assigned only after
  \<^verbatim>\<open>power_plant_layout\<close> has run, and \<^verbatim>\<open>cas_charge\<close> and \<^verbatim>\<open>cas_discharge\<close> only inside
  \<^verbatim>\<open>get_power\<close>: an attribute that is not there yet is \<open>None\<close>. The last three fields
  are the world around the instance: the states saved to disk by \<^verbatim>\<open>save\<close>, the calls
  made to the solver, and the diagnostics written.
\<close>

record model = ctrl +
  min_well_depth :: real
  num_wells :: int
  p_max :: real
  p_min :: real
  wdir :: string
  tespy_charge :: network
  tespy_discharge :: network
  spline_charge :: "spline option"
  spline_discharge :: "spline option"
  cas_charge :: "ref option"
  cas_discharge :: "ref option"
  saved :: "string \<rightharpoonup> network"
  calls :: "call list"
  diagnostics :: "(channel \<times> message) list"

definition say :: "channel \<Rightarrow> message \<Rightarrow> model \<Rightarrow> model" where
  "say ch msg self = self\<lparr>diagnostics := diagnostics self @ [(ch, msg)]\<rparr>"

text \<open>
  Lines 280 to 289 of \<^verbatim>\<open>get_power\<close>: set pressure and mass flow at the interface
  connection, which is looked up among the network's connections (the first one whose
  target component is labelled \<^verbatim>\<open>cas\<close>) and remembered in \<^verbatim>\<open>self.cas_charge\<close> the first
  time. When no connection matches, nothing is set and nothing is raised.
\<close>

definition set_interface_charge :: "real \<Rightarrow> real \<Rightarrow> model \<Rightarrow> model" where
  "set_interface_charge pressure massflow self =
     (case cas_charge self of
        Some c \<Rightarrow>
          self\<lparr>tespy_charge :=
                 conn_set_m c (Some massflow) (conn_set_p c (Some pressure) (tespy_charge self))\<rparr>
      | None \<Rightarrow>
          (case find (\<lambda>c. conn_t_label (conn_obj (tespy_charge self) c) = ''cas'')
                  (conns (tespy_charge self)) of
             None \<Rightarrow> self
           | Some c \<Rightarrow>
               self\<lparr>cas_charge := Some c,
                    tespy_charge :=
                      conn_set_m c (Some massflow)
                        (conn_set_p c (Some pressure) (tespy_charge self))\<rparr>))"

text \<open>Lines 314 to 323: the same for discharging, matching the source component.\<close>

definition set_interface_discharge :: "real \<Rightarrow> real \<Rightarrow> model \<Rightarrow> model" where
  "set_interface_discharge pressure massflow self =
     (case cas_discharge self of
        Some c \<Rightarrow>
          self\<lparr>tespy_discharge :=
                 conn_set_m c (Some massflow)
                   (conn_set_p c (Some pressure) (tespy_discharge self))\<rparr>
      | None \<Rightarrow>
          (case find (\<lambda>c. conn_s_label (conn_obj (tespy_discharge self) c) = ''cas'')
                  (conns (tespy_discharge self)) of
             None \<Rightarrow> self
           | Some c \<Rightarrow>
               self\<lparr>cas_discharge := Some c,
                    tespy_discharge :=
                      conn_set_m c (Some massflow)
                        (conn_set_p c (Some pressure) (tespy_discharge self))\<rparr>))"

text \<open>
  The solver is called on one of the two networks of the instance; the call is recorded
  and the network is replaced by what the solver leaves behind, whether it raised or not.
\<close>

definition solve_charge :: "solver \<Rightarrow> solve_mode \<Rightarrow> model \<Rightarrow> py_error option \<times> model" where
  "solve_charge solve md self =
     (case solve (saved self) md (tespy_charge self) of
        (exc, n) \<Rightarrow> (exc, self\<lparr>tespy_charge := n, calls := calls self @ [Solve Charge md]\<rparr>))"

definition solve_discharge :: "solver \<Rightarrow> solve_mode \<Rightarrow> model \<Rightarrow> py_error option \<times> model" where
  "solve_discharge solve md self =
     (case solve (saved self) md (tespy_discharge self) of
        (exc, n) \<Rightarrow> (exc, self\<lparr>tespy_discharge := n, calls := calls self @ [Solve Discharge md]\<rparr>))"

text \<open>
  The tail of the spline branch of \<^verbatim>\<open>get_mass_flow\<close> (lines 226 to 233), shared by both
  modes: invert the surface with \<^verbatim>\<open>newton\<close> at its default keywords, print when the
  result is 0, and return the bare mass flow.
\<close>

definition spline_mass_flow ::
  "spline \<Rightarrow> real \<Rightarrow> real \<Rightarrow> model \<Rightarrow> (py_error + retval) \<times> model" where
  "spline_mass_flow func pressure power' self =
     (case newton reverse_2d reverse_2d_deriv (func, pressure, power') 0 no_kwargs of
        Inl e \<Rightarrow> (Inl e, self)
      | Inr mass_flow \<Rightarrow>
          (Inr (Scalar mass_flow),
           if mass_flow = 0 then say Stdout (No_solution power' pressure) self else self))"

text \<open>
  \<^verbatim>\<open>return 0, 0\<close> after the message that no solution was found: the residual branch
  and the bare \<^verbatim>\<open>except:\<close> of the tespy path write the same message.
\<close>

definition failed :: "channel \<Rightarrow> real \<Rightarrow> real \<Rightarrow> model \<Rightarrow> (py_error + retval) \<times> model" where
  "failed ch power' pressure self =
     (Inr (Tuple2 0 0), say ch (No_solution power' pressure) self)"

section \<open>\<^verbatim>\<open>get_mass_flow\<close> and \<^verbatim>\<open>get_power\<close>\<close>

text \<open>
  The two methods call each other: \<^verbatim>\<open>get_mass_flow\<close> calls \<^verbatim>\<open>get_power\<close> to clamp on
  the tespy path, \<^verbatim>\<open>get_power\<close> calls itself to clamp and calls \<^verbatim>\<open>get_mass_flow\<close> for
  the forward check on the spline path. Each returns its result, or the exception it
  raised, together with the instance as the call left it. The parameter \<^verbatim>\<open>power\<close> of
  the source is written \<open>power'\<close>, the plain name being HOL's exponentiation.
\<close>

function get_mass_flow ::
    "solver \<Rightarrow> model \<Rightarrow> real \<Rightarrow> real \<Rightarrow> string \<Rightarrow> (py_error + retval) \<times> model"
  and get_power ::
    "solver \<Rightarrow> model \<Rightarrow> real \<Rightarrow> real \<Rightarrow> string \<Rightarrow> (py_error + real) \<times> model" where
  "get_mass_flow solve self power' pressure mode =
     (if pressure + 1 / 10000 < p_min self then
        (Inr (Tuple2 0 0), say Logging_error (Pressure_below_minimum (p_min self) pressure) self)
      else if pressure - 1 / 10000 > p_max self then
        (Inr (Tuple2 0 0), say Logging_error (Pressure_above_maximum (p_max self) pressure) self)
      else if method self = ''tespy'' then
        (if mode = ''charging'' then
           (if \<bar>power'\<bar> < \<bar>power_nominal_charge self / 100\<bar> then (Inr (Tuple2 0 0), self)
            else
              (let design_path = wdir self @ ''charge_design'' in
               case imp_bus_set_P (power_bus_charge self) (Some power') (tespy_charge self) of
                 Inl e \<Rightarrow> (Inl e, self)
               | Inr n1 \<Rightarrow>
              (case imp_conn_set_p_m (storage_connection_charge self) (Some pressure) None n1 of
                 Inl e \<Rightarrow> (Inl e, self\<lparr>tespy_charge := n1\<rparr>)
               | Inr n2 \<Rightarrow>
              (case solve_charge solve (Offdesign_design_path design_path)
                      (self\<lparr>tespy_charge := n2\<rparr>) of
                 (Some e, s1) \<Rightarrow> failed Logging_error power' pressure s1
               | (None, s1) \<Rightarrow>
              (case res_last (tespy_charge s1) of
                 Inl e \<Rightarrow> failed Logging_error power' pressure s1
               | Inr r \<Rightarrow>
                   if r > 1 / 1000 then failed Logging_error power' pressure s1
                   else
                     (case cas_charge s1 of
                        None \<Rightarrow> failed Logging_error power' pressure s1
                      | Some c \<Rightarrow>
                          if conn_m_val_SI (conn_obj (tespy_charge s1) c)
                               < massflow_min_rel s1 * massflow_charge_max s1 then
                            (Inr (Tuple2 0 0),
                             say Logging_error (Mass_flow_below_minimum power' pressure) s1)
                          else if conn_m_val_SI (conn_obj (tespy_charge s1) c)
                               > massflow_charge_max s1 then
                            (case get_power solve
                                    (say Logging_warning
                                       (Mass_flow_above_maximum power' pressure) s1)
                                    (massflow_charge_max s1) pressure mode of
                               (Inl e, s2) \<Rightarrow> failed Logging_error power' pressure s2
                             | (Inr pw, s2) \<Rightarrow>
                                 (Inr (Tuple2 (massflow_charge_max s1) pw), s2))
                          else
                            (case imp_conn_m_val_SI (storage_connection_charge s1)
                                    (tespy_charge s1) of
                               Inl e \<Rightarrow> failed Logging_error power' pressure s1
                             | Inr m \<Rightarrow>
                                 (Inr (Tuple2 m power'),
                                  say Logging_info
                                    (Calculation_successful power' pressure m) s1))))))))
         else if mode = ''discharging'' then
           (if \<bar>power'\<bar> < \<bar>power_nominal_discharge self / 100\<bar> then (Inr (Tuple2 0 0), self)
            else
              (let design_path = wdir self @ ''discharge_design'' in
               case imp_bus_set_P (power_bus_discharge self) (Some power')
                      (tespy_discharge self) of
                 Inl e \<Rightarrow> (Inl e, self)
               | Inr n1 \<Rightarrow>
              (case imp_conn_set_p_m (storage_connection_discharge self) (Some pressure) None
                      n1 of
                 Inl e \<Rightarrow> (Inl e, self\<lparr>tespy_discharge := n1\<rparr>)
               | Inr n2 \<Rightarrow>
              (case solve_discharge solve (Offdesign_design_path design_path)
                      (self\<lparr>tespy_discharge := n2\<rparr>) of
                 (Some e, s1) \<Rightarrow> failed Stdout power' pressure s1
               | (None, s1) \<Rightarrow>
              (case res_last (tespy_discharge s1) of
                 Inl e \<Rightarrow> failed Stdout power' pressure s1
               | Inr r \<Rightarrow>
                   if r > 1 / 1000 then failed Stdout power' pressure s1
                   else
                     (case cas_discharge s1 of
                        None \<Rightarrow> failed Stdout power' pressure s1
                      | Some c \<Rightarrow>
                          if conn_m_val_SI (conn_obj (tespy_discharge s1) c)
                               < massflow_min_rel s1 * massflow_discharge_max s1 then
                            (Inr (Tuple2 0 0),
                             say Stdout (Mass_flow_below_minimum power' pressure) s1)
                          else if conn_m_val_SI (conn_obj (tespy_discharge s1) c)
                               > massflow_discharge_max s1 then
                            (case get_power solve
                                    (say Stdout (Mass_flow_above_maximum power' pressure) s1)
                                    (massflow_discharge_max s1) pressure mode of
                               (Inl e, s2) \<Rightarrow> failed Stdout power' pressure s2
                             | (Inr pw, s2) \<Rightarrow>
                                 (Inr (Tuple2 (massflow_discharge_max s1) pw), s2))
                          else
                            (case imp_conn_m_val_SI (storage_connection_discharge s1)
                                    (tespy_discharge s1) of
                               Inl e \<Rightarrow> failed Stdout power' pressure s1
                             | Inr m \<Rightarrow> (Inr (Tuple2 m power'), s1))))))))
         else (Inl (ValueError ''Mode must be charging or discharging.''), self))
      else if method self = ''spline'' then
        (if mode = ''charging'' then
           (case spline_charge self of
              None \<Rightarrow> (Inl (AttributeError ''spline_charge''), self)
            | Some func \<Rightarrow> spline_mass_flow func pressure power' self)
         else if mode = ''discharging'' then
           (case spline_discharge self of
              None \<Rightarrow> (Inl (AttributeError ''spline_discharge''), self)
            | Some func \<Rightarrow> spline_mass_flow func pressure (- power') self)
         else (Inl (ValueError ''Mode must be charging or discharging.''), self))
      else (Inl (ValueError ''Method must be tespy or spline.''), self))"
| "get_power solve self massflow pressure mode =
     (if pressure + 1 / 10000 < p_min self then
        (Inr 0, say Stdout (Pressure_below_minimum (p_min self) pressure) self)
      else if pressure - 1 / 10000 > p_max self then
        (Inr 0, say Stdout (Pressure_above_maximum (p_max self) pressure) self)
      else if method self = ''tespy'' then
        (if mode = ''charging'' then
           (let m_min = massflow_min_rel self * massflow_charge_max self;
                m_max = massflow_charge_max self
            in if massflow < m_min - 1 / 10000 then
                 (Inr 0, say Stdout (Input_massflow_below_minimum m_min massflow) self)
               else if massflow > m_max + 1 / 10000 then
                 get_power solve
                   (say Stdout (Input_massflow_above_maximum m_max massflow) self)
                   m_max pressure mode
               else
                 (let init_file = tespy_charge_path self @ ''/results.csv'' in
                  case first_bus_set_P None (tespy_charge self) of
                    Inl e \<Rightarrow> (Inl e, self)
                  | Inr n1 \<Rightarrow>
                 (case solve_charge solve (Offdesign_init_file init_file init_file)
                         (set_interface_charge pressure massflow
                            (self\<lparr>tespy_charge := n1\<rparr>)) of
                    (Some e, s1) \<Rightarrow> (Inl e, s1)
                  | (None, s1) \<Rightarrow>
                      (case first_bus_P_val (tespy_charge s1) of
                         Inl e \<Rightarrow> (Inl e, s1)
                       | Inr pw \<Rightarrow> (Inr pw, s1)))))
         else if mode = ''discharging'' then
           (let m_min = massflow_min_rel self * massflow_discharge_max self;
                m_max = massflow_discharge_max self
            in if massflow < m_min - 1 / 10000 then
                 (Inr 0, say Stdout (Input_massflow_below_minimum m_min massflow) self)
               else if massflow > m_max + 1 / 10000 then
                 get_power solve
                   (say Stdout (Input_massflow_above_maximum m_max massflow) self)
                   m_max pressure mode
               else
                 (let init_file = tespy_discharge_path self @ ''/results.csv'' in
                  case first_bus_set_P None (tespy_discharge self) of
                    Inl e \<Rightarrow> (Inl e, self)
                  | Inr n1 \<Rightarrow>
                 (case solve_discharge solve (Offdesign_init_file init_file init_file)
                         (set_interface_discharge pressure massflow
                            (self\<lparr>tespy_discharge := n1\<rparr>)) of
                    (Some e, s1) \<Rightarrow> (Inl e, s1)
                  | (None, s1) \<Rightarrow>
                      (case first_bus_P_val (tespy_discharge s1) of
                         Inl e \<Rightarrow> (Inl e, s1)
                       | Inr pw \<Rightarrow> (Inr pw, s1)))))
         else (Inl (ValueError ''Mode must be charge or discharge.''), self))
      else if method self = ''spline'' then
        (if mode = ''charging'' then
           (case spline_charge self of
              None \<Rightarrow> (Inl (AttributeError ''spline_charge''), self)
            | Some func \<Rightarrow>
                (let val = ev func massflow pressure in
                 case get_mass_flow solve self val pressure mode of
                   (Inl e, s1) \<Rightarrow> (Inl e, s1)
                 | (Inr (Tuple2 a b), s1) \<Rightarrow> (Inl TypeError, s1)
                 | (Inr (Scalar x), s1) \<Rightarrow>
                     if massflow = 0 then (Inl ZeroDivisionError, s1)
                     else if \<bar>(x - massflow) / massflow\<bar> < 1 / 100000 then (Inr val, s1)
                     else (Inr 0, s1)))
         else if mode = ''discharging'' then
           (case spline_discharge self of
              None \<Rightarrow> (Inl (AttributeError ''spline_discharge''), self)
            | Some func \<Rightarrow>
                (let val = ev func massflow pressure in
                 case get_mass_flow solve self val pressure mode of
                   (Inl e, s1) \<Rightarrow> (Inl e, s1)
                 | (Inr (Tuple2 a b), s1) \<Rightarrow> (Inl TypeError, s1)
                 | (Inr (Scalar x), s1) \<Rightarrow>
                     if massflow = 0 then (Inl ZeroDivisionError, s1)
                     else if \<bar>(x - massflow) / massflow\<bar> < 1 / 100000 then (Inr val, s1)
                     else (Inr 0, s1)))
         else (Inl (ValueError ''Mode must be charge or discharge.''), self))
      else (Inl (ValueError ''Method must be tespy or spline.''), self))"
  by pat_completeness auto
termination
  by (relation "measure (\<lambda>x. case x of
            Inl (solve, self, power', pressure, mode) \<Rightarrow>
              (if method self = ''tespy'' then 2 else 0)
          | Inr (solve, self, massflow, pressure, mode) \<Rightarrow>
              (if method self = ''spline'' then 1
               else if (mode = ''charging'' \<and>
                          massflow > massflow_charge_max self + 1 / 10000)
                     \<or> (mode = ''discharging'' \<and>
                          massflow > massflow_discharge_max self + 1 / 10000)
                    then 1 else 0))")
     (auto simp: say_def solve_charge_def solve_discharge_def split: prod.splits)

declare get_mass_flow.simps [simp del] get_power.simps [simp del]

section \<open>Design-point calibration\<close>

text \<open>
  \<^verbatim>\<open>power_plant_layout\<close>, statement by statement. An exception of a lookup or of the
  solver leaves the method at once. \<^verbatim>\<open>save\<close> writes the state of the network it is
  called on under the given path.
\<close>

definition power_plant_layout :: "solver \<Rightarrow> model \<Rightarrow> (py_error + unit) \<times> model" where
  "power_plant_layout solve self =
     (case imp_bus_set_P (power_bus_charge self) (Some (power_nominal_charge self))
             (tespy_charge self) of
        Inl e \<Rightarrow> (Inl e, self)
      | Inr c1 \<Rightarrow>
     (case imp_conn_set_p_m (storage_connection_charge self) (Some (p_nom self)) None c1 of
        Inl e \<Rightarrow> (Inl e, self\<lparr>tespy_charge := c1\<rparr>)
      | Inr c2 \<Rightarrow>
     (case imp_comp_set_L (pipe self) (Some (min_well_depth self)) c2 of
        Inl e \<Rightarrow> (Inl e, self\<lparr>tespy_charge := c2\<rparr>)
      | Inr c3 \<Rightarrow>
     (case solve_charge solve Design (self\<lparr>tespy_charge := c3\<rparr>) of
        (Some e, s1) \<Rightarrow> (Inl e, s1)
      | (None, s1) \<Rightarrow>
     (let s2 = s1\<lparr>saved := (saved s1)(wdir s1 @ ''charge_design'' \<mapsto> tespy_charge s1),
                  calls := calls s1 @ [Save Charge (wdir s1 @ ''charge_design'')]\<rparr>
      in
      case imp_conn_m_val_SI (storage_connection_charge s2) (tespy_charge s2) of
        Inl e \<Rightarrow> (Inl e, s2)
      | Inr m \<Rightarrow>
     (let s3 = say Logging_info
                 (Nominal_mass_flow ''charging'' m (power_nominal_charge s2) (p_nom s2)) s2
      in
      case imp_bus_set_P (power_bus_discharge s3) (Some (power_nominal_discharge s3))
             (tespy_discharge s3) of
        Inl e \<Rightarrow> (Inl e, s3)
      | Inr d1 \<Rightarrow>
     (case imp_conn_set_p_m (storage_connection_discharge s3) (Some (p_nom s3)) None d1 of
        Inl e \<Rightarrow> (Inl e, s3\<lparr>tespy_discharge := d1\<rparr>)
      | Inr d2 \<Rightarrow>
     (case imp_comp_set_L (pipe s3) (Some (min_well_depth s3)) (tespy_charge s3) of
        Inl e \<Rightarrow> (Inl e, s3\<lparr>tespy_discharge := d2\<rparr>)
      | Inr c4 \<Rightarrow>
     (case solve_discharge solve Design (s3\<lparr>tespy_discharge := d2, tespy_charge := c4\<rparr>) of
        (Some e, s4) \<Rightarrow> (Inl e, s4)
      | (None, s4) \<Rightarrow>
     (let s5 = s4\<lparr>saved := (saved s4)(wdir s4 @ ''discharge_design'' \<mapsto> tespy_charge s4),
                  calls := calls s4 @ [Save Charge (wdir s4 @ ''discharge_design'')]\<rparr>
      in
      case imp_conn_m_val_SI (storage_connection_discharge s5) (tespy_discharge s5) of
        Inl e \<Rightarrow> (Inl e, s5)
      | Inr m \<Rightarrow>
          (Inr (),
           say Logging_info
             (Nominal_mass_flow ''discharging'' m (power_nominal_discharge s5) (p_nom s5))
             s5)))))))))))"

section \<open>The constructor\<close>

text \<open>
  \<^verbatim>\<open>load_lookup\<close>: \<^verbatim>\<open>pandas.read_csv\<close> gives the index (mass flow), the column
  headers (pressure) and the matrix (power); either axis that is descending is reversed
  together with the rows or columns of the matrix, and the surface is fitted by
  \<^verbatim>\<open>RectBivariateSpline\<close>. Reading and fitting are the libraries' work.
\<close>

record table =
  tbl_index :: "real list"
  tbl_columns :: "real list"
  tbl_matrix :: "real list list"

text \<open>A value a Python name can be bound to: a string, or an object of another kind.\<close>

datatype pyobj = Str string | Obj

text \<open>
  What the constructor finds around it: the control file (\<^verbatim>\<open>open\<close> and \<^verbatim>\<open>json.load\<close>),
  \<^verbatim>\<open>nwkr.load_nwk\<close>, \<^verbatim>\<open>pd.read_csv\<close>, \<^verbatim>\<open>interpolate.RectBivariateSpline\<close>, the builtin
  namespace of the interpreter and the states already saved on disk.
\<close>

record environment =
  read_ctrl :: "string \<Rightarrow> py_error + ctrl"
  load_nwk :: "string \<Rightarrow> py_error + network"
  read_csv :: "string \<Rightarrow> py_error + table"
  RectBivariateSpline :: "real list \<Rightarrow> real list \<Rightarrow> real list list \<Rightarrow> py_error + spline"
  builtins :: "string \<rightharpoonup> pyobj"
  disk :: "string \<rightharpoonup> network"

definition load_lookup :: "environment \<Rightarrow> string \<Rightarrow> py_error + spline" where
  "load_lookup env path =
     (case read_csv env path of
        Inl e \<Rightarrow> Inl e
      | Inr df \<Rightarrow>
          (let y = tbl_matrix df; x1 = tbl_index df in
           if x1 = [] then Inl IndexError
           else
             (let flip1 = hd x1 > last x1;
                  x1 = (if flip1 then rev x1 else x1);
                  y = (if flip1 then rev y else y);
                  x2 = tbl_columns df
              in if x2 = [] then Inl IndexError
                 else
                   (let flip2 = hd x2 > last x2;
                        x2 = (if flip2 then rev x2 else x2);
                        y = (if flip2 then map rev y else y)
                    in RectBivariateSpline env x1 x2 y))))"

text \<open>
  The names bound at the top level of the module \<^verbatim>\<open>powerplant.py\<close>: its imports, the
  class and the three functions. None of them is a string.
\<close>

definition module_globals :: "string \<rightharpoonup> pyobj" where
  "module_globals =
     map_of [(''pd'', Obj), (''np'', Obj), (''json'', Obj), (''interpolate'', Obj),
             (''logging'', Obj), (''nwkr'', Obj), (''logger'', Obj), (''model'', Obj),
             (''reverse_2d'', Obj), (''reverse_2d_deriv'', Obj), (''newton'', Obj)]"

text \<open>
  A name that a function reads and never assigns is looked up in the module's globals,
  then in the builtins; a name bound in neither raises \<^verbatim>\<open>NameError\<close>.
\<close>

definition load_global :: "environment \<Rightarrow> string \<Rightarrow> py_error + pyobj" where
  "load_global env name =
     (case module_globals name of
        Some v \<Rightarrow> Inr v
      | None \<Rightarrow>
          (case builtins env name of
             Some v \<Rightarrow> Inr v
           | None \<Rightarrow> Inl (NameError name)))"

text \<open>
  The expression \<^verbatim>\<open>name + s\<close> for a global name and a string \<open>s\<close>: the name is
  evaluated first, and adding a string to an object that is not one raises.
\<close>

definition global_plus :: "environment \<Rightarrow> string \<Rightarrow> string \<Rightarrow> py_error + string" where
  "global_plus env name s =
     (case load_global env name of
        Inl e \<Rightarrow> Inl e
      | Inr (Str w) \<Rightarrow> Inr (w @ s)
      | Inr Obj \<Rightarrow> Inl TypeError)"

record coupling_data =
  working_dir :: string
  powerplant_path :: string
  scenario :: string

text \<open>
  \<^verbatim>\<open>model.__init__\<close>. The constructor's only local names are its parameters,
  \<^verbatim>\<open>path\<close> and \<^verbatim>\<open>f\<close>; it assigns the attribute \<^verbatim>\<open>self.wdir\<close> and then reads the bare
  name \<^verbatim>\<open>wdir\<close> on lines 76, 77, 80 and 82, which is therefore a global lookup. An
  exception leaves the constructor and no instance results.
  \<^verbatim>\<open>set_printoptions\<close> only silences the solver's printing and is left out.
\<close>

definition init ::
  "environment \<Rightarrow> solver \<Rightarrow> coupling_data \<Rightarrow> real \<Rightarrow> int \<Rightarrow> real \<Rightarrow> real
    \<Rightarrow> py_error + model" where
  "init env solve cd min_well_depth' num_wells' p_max' p_min' =
     (let path = working_dir cd @ powerplant_path cd @ scenario cd @ ''.powerplant_ctrl.json''
      in
      case read_ctrl env path of
        Inl e \<Rightarrow> Inl e
      | Inr js \<Rightarrow>
     (case global_plus env ''wdir'' (spline_charge_path js) of
        Inl e \<Rightarrow> Inl e
      | Inr sc \<Rightarrow>
     (case global_plus env ''wdir'' (spline_discharge_path js) of
        Inl e \<Rightarrow> Inl e
      | Inr sd \<Rightarrow>
     (case global_plus env ''wdir'' (tespy_charge_path js) of
        Inl e \<Rightarrow> Inl e
      | Inr tc \<Rightarrow>
     (case load_nwk env tc of
        Inl e \<Rightarrow> Inl e
      | Inr nc \<Rightarrow>
     (case global_plus env ''wdir'' (tespy_discharge_path js) of
        Inl e \<Rightarrow> Inl e
      | Inr td \<Rightarrow>
     (case load_nwk env td of
        Inl e \<Rightarrow> Inl e
      | Inr nd \<Rightarrow>
     (case power_plant_layout solve
             \<lparr>method = method js, p_nom = p_nom js,
              power_nominal_charge = power_nominal_charge js,
              power_nominal_discharge = power_nominal_discharge js,
              massflow_min_rel = massflow_min_rel js,
              massflow_charge_max = massflow_charge_max js,
              massflow_discharge_max = massflow_discharge_max js,
              power_bus_charge = power_bus_charge js,
              power_bus_discharge = power_bus_discharge js,
              storage_connection_charge = storage_connection_charge js,
              storage_connection_discharge = storage_connection_discharge js,
              pipe = pipe js,
              spline_charge_path = sc, spline_discharge_path = sd,
              tespy_charge_path = tespy_charge_path js,
              tespy_discharge_path = tespy_discharge_path js,
              min_well_depth = min_well_depth', num_wells = num_wells',
              p_max = p_max', p_min = p_min',
              wdir = working_dir cd @ powerplant_path cd,
              tespy_charge = nc, tespy_discharge = nd,
              spline_charge = None, spline_discharge = None,
              cas_charge = None, cas_discharge = None,
              saved = disk env, calls = [], diagnostics = []\<rparr> of
        (Inl e, s1) \<Rightarrow> Inl e
      | (Inr u, s1) \<Rightarrow>
     (case load_lookup env (spline_charge_path s1) of
        Inl e \<Rightarrow> Inl e
      | Inr fc \<Rightarrow>
     (case load_lookup env (spline_discharge_path s1) of
        Inl e \<Rightarrow> Inl e
      | Inr fd \<Rightarrow>
          Inr (s1\<lparr>spline_charge := Some fc, spline_discharge := Some fd\<rparr>)))))))))))"

section \<open>Notions used by the properties\<close>

text \<open>One update of the root finder: the Newton step, then the clamp into the bounds.\<close>

definition newton_update ::
  "(real \<Rightarrow> real) \<Rightarrow> (real \<Rightarrow> real) \<Rightarrow> real \<Rightarrow> real \<Rightarrow> real \<Rightarrow> real \<Rightarrow> real" where
  "newton_update f f' k vmin vmax x =
     (let x1 = x + (k - f x) / f' x;
          x2 = (if x1 < vmin then vmin else x1)
      in if x2 > vmax then vmax else x2)"

text \<open>The nominal power and the maximum mass flow of a mode.\<close>

definition nominal_power :: "model \<Rightarrow> string \<Rightarrow> real" where
  "nominal_power self mode =
     (if mode = ''charging'' then power_nominal_charge self else power_nominal_discharge self)"

definition max_mass_flow :: "model \<Rightarrow> string \<Rightarrow> real" where
  "max_mass_flow self mode =
     (if mode = ''charging'' then massflow_charge_max self else massflow_discharge_max self)"

text \<open>
  The raw mass flow of the tespy path of \<^verbatim>\<open>get_mass_flow\<close>: the bus power and the
  interface pressure are set, the off-design solve returns with a last residual of at
  most \<^verbatim>\<open>1e-3\<close>, and the mass flow is read at the connection \<^verbatim>\<open>self.cas_charge\<close>
  (\<^verbatim>\<open>self.cas_discharge\<close>), as lines 168 and 198 read it. The result is that mass flow
  and the instance after the solve; \<open>None\<close> when the path ends before a mass flow is read.
\<close>

definition raw_mass_flow ::
  "solver \<Rightarrow> model \<Rightarrow> real \<Rightarrow> real \<Rightarrow> string \<Rightarrow> (real \<times> model) option" where
  "raw_mass_flow solve self power' pressure mode =
     (if mode = ''charging'' then
        (case imp_bus_set_P (power_bus_charge self) (Some power') (tespy_charge self) of
           Inl e \<Rightarrow> None
         | Inr n1 \<Rightarrow>
        (case imp_conn_set_p_m (storage_connection_charge self) (Some pressure) None n1 of
           Inl e \<Rightarrow> None
         | Inr n2 \<Rightarrow>
        (case solve_charge solve (Offdesign_design_path (wdir self @ ''charge_design''))
                (self\<lparr>tespy_charge := n2\<rparr>) of
           (Some e, s1) \<Rightarrow> None
         | (None, s1) \<Rightarrow>
        (case res_last (tespy_charge s1) of
           Inl e \<Rightarrow> None
         | Inr r \<Rightarrow>
             if r > 1 / 1000 then None
             else
               (case cas_charge s1 of
                  None \<Rightarrow> None
                | Some c \<Rightarrow> Some (conn_m_val_SI (conn_obj (tespy_charge s1) c), s1))))))
      else if mode = ''discharging'' then
        (case imp_bus_set_P (power_bus_discharge self) (Some power') (tespy_discharge self) of
           Inl e \<Rightarrow> None
         | Inr n1 \<Rightarrow>
        (case imp_conn_set_p_m (storage_connection_discharge self) (Some pressure) None n1 of
           Inl e \<Rightarrow> None
         | Inr n2 \<Rightarrow>
        (case solve_discharge solve (Offdesign_design_path (wdir self @ ''discharge_design''))
                (self\<lparr>tespy_discharge := n2\<rparr>) of
           (Some e, s1) \<Rightarrow> None
         | (None, s1) \<Rightarrow>
        (case res_last (tespy_discharge s1) of
           Inl e \<Rightarrow> None
         | Inr r \<Rightarrow>
             if r > 1 / 1000 then None
             else
               (case cas_discharge s1 of
                  None \<Rightarrow> None
                | Some c \<Rightarrow> Some (conn_m_val_SI (conn_obj (tespy_discharge s1) c), s1))))))
      else None)"

text \<open>
  The message \<^verbatim>\<open>get_mass_flow\<close> writes before it clamps: a warning through
  \<^verbatim>\<open>logging\<close> when charging, a \<^verbatim>\<open>print\<close> when discharging.
\<close>

definition clamp_notice :: "string \<Rightarrow> real \<Rightarrow> real \<Rightarrow> model \<Rightarrow> model" where
  "clamp_notice mode power' pressure self =
     say (if mode = ''charging'' then Logging_warning else Stdout)
       (Mass_flow_above_maximum power' pressure) self"

text \<open>How often the ceiling clamp of \<^verbatim>\<open>get_power\<close> has been entered: its message is
  printed once each time.\<close>

fun is_clamp :: "channel \<times> message \<Rightarrow> bool" where
  "is_clamp (ch, Input_massflow_above_maximum m_max massflow) = True"
| "is_clamp (ch, msg) = False"

definition clamp_count :: "model \<Rightarrow> nat" where
  "clamp_count self = length (filter is_clamp (diagnostics self))"

section \<open>An example plant\<close>

text \<open>
  The configuration of the specification's example scenario: pressure limits 50 and 150,
  at most 10 of mass flow, a minimum of one tenth of it, nominal charging power \<open>-1000\<close>.
  Each network has one bus, one connection and one pipe.
\<close>

definition example_network :: "string \<Rightarrow> string \<Rightarrow> network" where
  "example_network s t =
     \<lparr>busses = [0], imp_busses = [''power'' \<mapsto> 0],
      bus_obj = (\<lambda>b. \<lparr>bus_P = None, bus_P_val = 0\<rparr>),
      conns = [0], imp_conns = [''storage'' \<mapsto> 0],
      conn_obj = (\<lambda>c. \<lparr>conn_p = None, conn_m = None, conn_m_val_SI = 0,
                        conn_s_label = s, conn_t_label = t\<rparr>),
      imp_comps = [''pipe'' \<mapsto> 0], comp_L = (\<lambda>c. None), res = []\<rparr>"

definition example_spline :: spline where
  "example_spline = \<lparr>ev = (\<lambda>x y. - 200 * x), ev_dx = (\<lambda>x y. - 200)\<rparr>"

definition example_plant :: "string \<Rightarrow> model" where
  "example_plant meth =
     \<lparr>method = meth, p_nom = 100,
      power_nominal_charge = - 1000, power_nominal_discharge = 1000,
      massflow_min_rel = 1 / 10, massflow_charge_max = 10, massflow_discharge_max = 10,
      power_bus_charge = ''power'', power_bus_discharge = ''power'',
      storage_connection_charge = ''storage'', storage_connection_discharge = ''storage'',
      pipe = ''pipe'',
      spline_charge_path = ''charge.csv'', spline_discharge_path = ''discharge.csv'',
      tespy_charge_path = ''charge'', tespy_discharge_path = ''discharge'',
      min_well_depth = 700, num_wells = 1, p_max = 150, p_min = 50, wdir = ''pp/'',
      tespy_charge = example_network ''pipe'' ''cas'',
      tespy_discharge = example_network ''cas'' ''pipe'',
      spline_charge = Some example_spline, spline_discharge = Some example_spline,
      cas_charge = None, cas_discharge = None,
      saved = Map.empty, calls = [], diagnostics = []\<rparr>"

text \<open>
  A solver for the example: it always converges, with 200 units of power for each unit
  of mass flow. A power given at the bus fixes the mass flow, a mass flow given at the
  connection fixes the power.
\<close>

definition linear_solver :: solver where
  "linear_solver files md n =
     (None,
      n\<lparr>res := res n @ [0],
        conn_obj := (\<lambda>c. (conn_obj n c)\<lparr>conn_m_val_SI :=
                       (case conn_m (conn_obj n c) of
                          Some m \<Rightarrow> m
                        | None \<Rightarrow> (case bus_P (bus_obj n 0) of
                                     Some P \<Rightarrow> \<bar>P\<bar> / 200
                                   | None \<Rightarrow> 0))\<rparr>),
        bus_obj := (\<lambda>b. (bus_obj n b)\<lparr>bus_P_val :=
                      (case bus_P (bus_obj n b) of
                         Some P \<Rightarrow> P
                       | None \<Rightarrow> (case conn_m (conn_obj n 0) of
                                    Some m \<Rightarrow> 200 * m
                                  | None \<Rightarrow> 0))\<rparr>)\<rparr>)"

text \<open>A solver that never converges: every call raises.\<close>

definition failing_solver :: solver where
  "failing_solver files md n = (Some (External ''no convergence''), n)"

text \<open>A cubic that is nearly flat at 200, with its derivative.\<close>

definition flat_cubic :: "unit \<Rightarrow> real \<Rightarrow> real" where
  "flat_cubic u x = (x - 200) ^ 3 + (x - 200) / 1000000 + 1 / 1000000"

definition flat_cubic_deriv :: "unit \<Rightarrow> real \<Rightarrow> real" where
  "flat_cubic_deriv u x = 3 * (x - 200) ^ 2 + 1 / 1000000"

text \<open>An environment in which the control file of the example can be read.\<close>

definition example_ctrl :: ctrl where
  "example_ctrl = ctrl.truncate (example_plant ''tespy'')"

definition example_env :: environment where
  "example_env =
     \<lparr>read_ctrl = (\<lambda>path. if path = ''run/pp/base.powerplant_ctrl.json''
                           then Inr example_ctrl else Inl (OSError path)),
      load_nwk = (\<lambda>path. Inr (example_network ''pipe'' ''cas'')),
      read_csv = (\<lambda>path. Inr \<lparr>tbl_index = [1, 10], tbl_columns = [50, 150],
                               tbl_matrix = [[- 200, - 200], [- 2000, - 2000]]\<rparr>),
      RectBivariateSpline = (\<lambda>x1 x2 y. Inr example_spline),
      builtins = Map.empty, disk = Map.empty\<rparr>"

definition example_cd :: coupling_data where
  "example_cd = \<lparr>working_dir = ''run/'', powerplant_path = ''pp/'', scenario = ''base''\<rparr>"

text \<open>
  The example under the tespy method after \<^verbatim>\<open>get_power\<close> has run once in each mode: the
  interface connections are known.
\<close>

definition example_plant_cas :: model where
  "example_plant_cas = (example_plant ''tespy'')\<lparr>cas_charge := Some 0, cas_discharge := Some 0\<rparr>"

section \<open>Auxiliary facts\<close>

lemma example_plant_sel [simp]:
  "p_min (example_plant meth) = 50" "p_max (example_plant meth) = 150"
  "method (example_plant meth) = meth"
  "power_nominal_charge (example_plant meth) = - 1000"
  "power_nominal_discharge (example_plant meth) = 1000"
  "massflow_min_rel (example_plant meth) = 1 / 10"
  "massflow_charge_max (example_plant meth) = 10"
  "massflow_discharge_max (example_plant meth) = 10"
  "cas_charge (example_plant meth) = None"
  "cas_discharge (example_plant meth) = None"
  "spline_charge (example_plant meth) = Some example_spline"
  "spline_discharge (example_plant meth) = Some example_spline"
  "diagnostics (example_plant meth) = []"
  "calls (example_plant meth) = []"
  by (simp_all add: example_plant_def)

text \<open>The loop of the root finder, one iteration unfolded.\<close>

lemma newton_loop_unfold:
  "newton_loop f f' k vmin vmax imx r v i =
     (if \<bar>r\<bar> \<ge> 1 / 100000 then
        if f' v = 0 then Inl ZeroDivisionError
        else if i + 1 > imx then Inr (0, i + 1)
        else newton_loop f f' k vmin vmax imx (k - f v)
               (newton_update f f' k vmin vmax v) (i + 1)
      else Inr (v, i))"
  by (subst newton_loop.simps) (simp add: newton_update_def Let_def)

lemma newton_update_bounds:
  "vmin \<le> vmax \<Longrightarrow>
     vmin \<le> newton_update f f' k vmin vmax x \<and> newton_update f f' k vmin vmax x \<le> vmax"
  by (simp add: newton_update_def Let_def)

text \<open>
  The invariant of the loop: whenever the residual in hand is below the tolerance, the
  counter is within the cap and the value in hand is the clamped update of the iterate
  that residual was computed at.
\<close>

lemma newton_loop_post:
  assumes "newton_loop f f' k vmin vmax imx r v i = Inr (x, n)"
    and "vmin \<le> vmax"
    and "\<bar>r\<bar> < 1 / 100000 \<longrightarrow>
           i \<le> imx \<and> (\<exists>y. r = k - f y \<and> f' y \<noteq> 0 \<and> v = newton_update f f' k vmin vmax y)"
  shows "(n \<le> imx \<longrightarrow>
            vmin \<le> x \<and> x \<le> vmax \<and>
            (\<exists>y. \<bar>k - f y\<bar> < 1 / 100000 \<and> f' y \<noteq> 0 \<and> x = newton_update f f' k vmin vmax y))
         \<and> (imx < n \<longrightarrow> x = 0)"
  using assms
proof (induction "nat (imx + 1 - i)" arbitrary: r v i rule: less_induct)
  case less
  note unf = newton_loop_unfold [of f f' k vmin vmax imx r v i]
  show ?case
  proof (cases "\<bar>r\<bar> \<ge> 1 / 100000")
    case False
    with less.prems(1) have xn: "x = v" "n = i"
      by (simp_all add: unf)
    from False less.prems(3) obtain y where
      y: "i \<le> imx" "r = k - f y" "f' y \<noteq> 0" "v = newton_update f f' k vmin vmax y"
      by auto
    have "vmin \<le> x \<and> x \<le> vmax"
      using newton_update_bounds [OF less.prems(2), of f f' k y] xn y by simp
    moreover have "\<bar>k - f y\<bar> < 1 / 100000" using False y by simp
    ultimately show ?thesis using xn y by auto
  next
    case big: True
    show ?thesis
    proof (cases "f' v = 0")
      case True
      with big less.prems(1) show ?thesis by (simp add: unf)
    next
      case nz: False
      show ?thesis
      proof (cases "i + 1 > imx")
        case True
        with big nz less.prems(1) show ?thesis by (simp add: unf)
      next
        case False
        with big nz less.prems(1) have
          rec: "newton_loop f f' k vmin vmax imx (k - f v)
                  (newton_update f f' k vmin vmax v) (i + 1) = Inr (x, n)"
          by (simp add: unf)
        have pre: "\<bar>k - f v\<bar> < 1 / 100000 \<longrightarrow>
           i + 1 \<le> imx \<and> (\<exists>y. k - f v = k - f y \<and> f' y \<noteq> 0 \<and>
             newton_update f f' k vmin vmax v = newton_update f f' k vmin vmax y)"
          using False nz by auto
        have dec: "nat (imx + 1 - (i + 1)) < nat (imx + 1 - i)"
          using False by simp
        show ?thesis
          by (rule less.hyps [OF dec rec less.prems(2) pre])
      qed
    qed
  qed
qed

lemma flat_cubic_run:
  "newton_run flat_cubic flat_cubic_deriv () 0 no_kwargs = Inr (199, 1)"
  by (simp add: newton_run_def no_kwargs_def kwargs_get_def newton_loop_unfold
        newton_update_def flat_cubic_def flat_cubic_deriv_def)

lemma solve_charge_eq:
  "solve_charge solve md self =
     (fst (solve (saved self) md (tespy_charge self)),
      self\<lparr>tespy_charge := snd (solve (saved self) md (tespy_charge self)),
           calls := calls self @ [Solve Charge md]\<rparr>)"
  by (simp add: solve_charge_def split_beta)

lemma solve_discharge_eq:
  "solve_discharge solve md self =
     (fst (solve (saved self) md (tespy_discharge self)),
      self\<lparr>tespy_discharge := snd (solve (saved self) md (tespy_discharge self)),
           calls := calls self @ [Solve Discharge md]\<rparr>)"
  by (simp add: solve_discharge_def split_beta)

lemma solve_charge_fields:
  assumes "solve_charge solve md self = (exc, s)"
  shows "massflow_min_rel s = massflow_min_rel self"
    "massflow_charge_max s = massflow_charge_max self"
    "cas_charge s = cas_charge self"
    "diagnostics s = diagnostics self"
  using assms unfolding solve_charge_eq by auto

lemma solve_discharge_fields:
  assumes "solve_discharge solve md self = (exc, s)"
  shows "massflow_min_rel s = massflow_min_rel self"
    "massflow_discharge_max s = massflow_discharge_max self"
    "cas_discharge s = cas_discharge self"
    "diagnostics s = diagnostics self"
  using assms unfolding solve_discharge_eq by auto

lemma diagnostics_set_interface [simp]:
  "diagnostics (set_interface_charge pressure massflow self) = diagnostics self"
  "diagnostics (set_interface_discharge pressure massflow self) = diagnostics self"
  by (simp_all add: set_interface_charge_def set_interface_discharge_def split: option.splits)

lemma clamp_count_say:
  "clamp_count (say ch msg self) = clamp_count self + (if is_clamp (ch, msg) then 1 else 0)"
  by (simp add: clamp_count_def say_def)

lemma clamp_count_cong:
  "diagnostics s = diagnostics self \<Longrightarrow> clamp_count s = clamp_count self"
  by (simp add: clamp_count_def)

lemma get_power_charging_diag:
  assumes "\<not> pressure + 1 / 10000 < p_min self" and "\<not> pressure - 1 / 10000 > p_max self"
    and "method self = ''tespy''"
    and "\<not> massflow < massflow_min_rel self * massflow_charge_max self - 1 / 10000"
    and "\<not> massflow > massflow_charge_max self + 1 / 10000"
  shows "diagnostics (snd (get_power solve self massflow pressure ''charging'')) = diagnostics self"
  using assms
  by (simp add: get_power.simps [of solve self massflow pressure "''charging''"] Let_def
        solve_charge_eq split: sum.splits option.splits)

lemma get_power_discharging_diag:
  assumes "\<not> pressure + 1 / 10000 < p_min self" and "\<not> pressure - 1 / 10000 > p_max self"
    and "method self = ''tespy''"
    and "\<not> massflow < massflow_min_rel self * massflow_discharge_max self - 1 / 10000"
    and "\<not> massflow > massflow_discharge_max self + 1 / 10000"
  shows "diagnostics (snd (get_power solve self massflow pressure ''discharging'')) = diagnostics self"
  using assms
  by (simp add: get_power.simps [of solve self massflow pressure "''discharging''"] Let_def
        solve_discharge_eq split: sum.splits option.splits)

lemma get_power_no_clamp:
  assumes "method self = ''tespy''"
    and "\<not> massflow > max_mass_flow self mode + 1 / 10000"
  shows "clamp_count (snd (get_power solve self massflow pressure mode)) = clamp_count self"
proof -
  consider (low) "pressure + 1 / 10000 < p_min self"
    | (high) "\<not> pressure + 1 / 10000 < p_min self" "pressure - 1 / 10000 > p_max self"
    | (ok) "\<not> pressure + 1 / 10000 < p_min self" "\<not> pressure - 1 / 10000 > p_max self"
    by blast
  then show ?thesis
  proof cases
    case low
    then show ?thesis by (subst get_power.simps) (simp add: clamp_count_say)
  next
    case high
    then show ?thesis by (subst get_power.simps) (simp add: clamp_count_say)
  next
    case ok
    consider (c) "mode = ''charging''" | (d) "mode = ''discharging''"
      | (other) "mode \<noteq> ''charging''" "mode \<noteq> ''discharging''"
      by blast
    then show ?thesis
    proof cases
      case c
      show ?thesis
      proof (cases "massflow < massflow_min_rel self * massflow_charge_max self - 1 / 10000")
        case True
        with ok c assms show ?thesis by (subst get_power.simps) (simp add: Let_def clamp_count_say)
      next
        case False
        with ok c assms show ?thesis
          by (intro clamp_count_cong) (simp add: get_power_charging_diag max_mass_flow_def)
      qed
    next
      case d
      show ?thesis
      proof (cases "massflow < massflow_min_rel self * massflow_discharge_max self - 1 / 10000")
        case True
        with ok d assms show ?thesis by (subst get_power.simps) (simp add: Let_def clamp_count_say)
      next
        case False
        with ok d assms show ?thesis
          by (intro clamp_count_cong) (simp add: get_power_discharging_diag max_mass_flow_def)
      qed
    next
      case other
      with ok assms show ?thesis by (subst get_power.simps) simp
    qed
  qed
qed

text \<open>The tespy path of \<^verbatim>\<open>get_mass_flow\<close>, up to the return of the solver.\<close>

lemma get_mass_flow_charging_solved:
  assumes "\<not> pressure + 1 / 10000 < p_min self" and "\<not> pressure - 1 / 10000 > p_max self"
    and "method self = ''tespy''"
    and "\<not> \<bar>power'\<bar> < \<bar>power_nominal_charge self / 100\<bar>"
    and "imp_bus_set_P (power_bus_charge self) (Some power') (tespy_charge self) = Inr n1"
    and "imp_conn_set_p_m (storage_connection_charge self) (Some pressure) None n1 = Inr n2"
    and "solve_charge solve (Offdesign_design_path (wdir self @ ''charge_design''))
           (self\<lparr>tespy_charge := n2\<rparr>) = (exc, s1)"
  shows "get_mass_flow solve self power' pressure ''charging'' =
    (case exc of
       Some e \<Rightarrow> failed Logging_error power' pressure s1
     | None \<Rightarrow>
        (case res_last (tespy_charge s1) of
           Inl e \<Rightarrow> failed Logging_error power' pressure s1
         | Inr r \<Rightarrow>
             if r > 1 / 1000 then failed Logging_error power' pressure s1
             else
               (case cas_charge s1 of
                  None \<Rightarrow> failed Logging_error power' pressure s1
                | Some c \<Rightarrow>
                    if conn_m_val_SI (conn_obj (tespy_charge s1) c)
                         < massflow_min_rel self * massflow_charge_max self then
                      (Inr (Tuple2 0 0),
                       say Logging_error (Mass_flow_below_minimum power' pressure) s1)
                    else if conn_m_val_SI (conn_obj (tespy_charge s1) c)
                         > massflow_charge_max self then
                      (case get_power solve
                              (say Logging_warning
                                 (Mass_flow_above_maximum power' pressure) s1)
                              (massflow_charge_max self) pressure ''charging'' of
                         (Inl e, s2) \<Rightarrow> failed Logging_error power' pressure s2
                       | (Inr pw, s2) \<Rightarrow>
                           (Inr (Tuple2 (massflow_charge_max self) pw), s2))
                    else
                      (case imp_conn_m_val_SI (storage_connection_charge self)
                              (tespy_charge s1) of
                         Inl e \<Rightarrow> failed Logging_error power' pressure s1
                       | Inr m \<Rightarrow>
                           (Inr (Tuple2 m power'),
                            say Logging_info
                              (Calculation_successful power' pressure m) s1)))))"
proof -
  have f: "massflow_min_rel s1 = massflow_min_rel self"
    "massflow_charge_max s1 = massflow_charge_max self"
    "storage_connection_charge s1 = storage_connection_charge self"
    using assms(7) unfolding solve_charge_eq by auto
  show ?thesis
    using assms(1-4)
    by (subst get_mass_flow.simps) (simp add: Let_def assms(5-7) f cong: option.case_cong sum.case_cong if_cong)
qed

lemma get_mass_flow_discharging_solved:
  assumes "\<not> pressure + 1 / 10000 < p_min self" and "\<not> pressure - 1 / 10000 > p_max self"
    and "method self = ''tespy''"
    and "\<not> \<bar>power'\<bar> < \<bar>power_nominal_discharge self / 100\<bar>"
    and "imp_bus_set_P (power_bus_discharge self) (Some power') (tespy_discharge self) = Inr n1"
    and "imp_conn_set_p_m (storage_connection_discharge self) (Some pressure) None n1 = Inr n2"
    and "solve_discharge solve (Offdesign_design_path (wdir self @ ''discharge_design''))
           (self\<lparr>tespy_discharge := n2\<rparr>) = (exc, s1)"
  shows "get_mass_flow solve self power' pressure ''discharging'' =
    (case exc of
       Some e \<Rightarrow> failed Stdout power' pressure s1
     | None \<Rightarrow>
        (case res_last (tespy_discharge s1) of
           Inl e \<Rightarrow> failed Stdout power' pressure s1
         | Inr r \<Rightarrow>
             if r > 1 / 1000 then failed Stdout power' pressure s1
             else
               (case cas_discharge s1 of
                  None \<Rightarrow> failed Stdout power' pressure s1
                | Some c \<Rightarrow>
                    if conn_m_val_SI (conn_obj (tespy_discharge s1) c)
                         < massflow_min_rel self * massflow_discharge_max self then
                      (Inr (Tuple2 0 0),
                       say Stdout (Mass_flow_below_minimum power' pressure) s1)
                    else if conn_m_val_SI (conn_obj (tespy_discharge s1) c)
                         > massflow_discharge_max self then
                      (case get_power solve
                              (say Stdout (Mass_flow_above_maximum power' pressure) s1)
                              (massflow_discharge_max self) pressure ''discharging'' of
                         (Inl e, s2) \<Rightarrow> failed Stdout power' pressure s2
                       | (Inr pw, s2) \<Rightarrow>
                           (Inr (Tuple2 (massflow_discharge_max self) pw), s2))
                    else
                      (case imp_conn_m_val_SI (storage_connection_discharge self)
                              (tespy_discharge s1) of
                         Inl e \<Rightarrow> failed Stdout power' pressure s1
                       | Inr m \<Rightarrow> (Inr (Tuple2 m power'), s1)))))"
proof -
  have f: "massflow_min_rel s1 = massflow_min_rel self"
    "massflow_discharge_max s1 = massflow_discharge_max self"
    "storage_connection_discharge s1 = storage_connection_discharge self"
    using assms(7) unfolding solve_discharge_eq by auto
  show ?thesis
    using assms(1-4)
    by (subst get_mass_flow.simps)
       (simp add: Let_def assms(5-7) f cong: option.case_cong sum.case_cong if_cong)
qed

text \<open>What a raw mass flow of the tespy path says about the steps before it.\<close>

lemma raw_charging_elim:
  assumes "raw_mass_flow solve self power' pressure ''charging'' = Some (m_raw, s1)"
  obtains n1 n2 r c where
    "imp_bus_set_P (power_bus_charge self) (Some power') (tespy_charge self) = Inr n1"
    "imp_conn_set_p_m (storage_connection_charge self) (Some pressure) None n1 = Inr n2"
    "solve_charge solve (Offdesign_design_path (wdir self @ ''charge_design''))
       (self\<lparr>tespy_charge := n2\<rparr>) = (None, s1)"
    "res_last (tespy_charge s1) = Inr r" "\<not> r > 1 / 1000"
    "cas_charge s1 = Some c"
    "m_raw = conn_m_val_SI (conn_obj (tespy_charge s1) c)"
proof -
  let ?b = "imp_bus_set_P (power_bus_charge self) (Some power') (tespy_charge self)"
  from assms obtain n1 where n1: "?b = Inr n1"
    by (cases ?b) (simp_all add: raw_mass_flow_def)
  let ?c = "imp_conn_set_p_m (storage_connection_charge self) (Some pressure) None n1"
  from assms n1 obtain n2 where n2: "?c = Inr n2"
    by (cases ?c) (simp_all add: raw_mass_flow_def)
  let ?s = "solve_charge solve (Offdesign_design_path (wdir self @ ''charge_design''))
              (self\<lparr>tespy_charge := n2\<rparr>)"
  obtain exc s where s: "?s = (exc, s)" by (cases ?s)
  from assms n1 n2 s have exc: "exc = None"
    by (cases exc) (simp_all add: raw_mass_flow_def)
  let ?r = "res_last (tespy_charge s)"
  from assms n1 n2 s exc obtain r where r: "?r = Inr r"
    by (cases ?r) (simp_all add: raw_mass_flow_def)
  from assms n1 n2 s exc r have small: "\<not> r > 1 / 1000"
    by (cases "r > 1 / 1000") (simp_all add: raw_mass_flow_def)
  from assms n1 n2 s exc r small obtain c where c: "cas_charge s = Some c"
    by (cases "cas_charge s") (simp_all add: raw_mass_flow_def)
  from assms n1 n2 s exc r small c
  have "s1 = s" "m_raw = conn_m_val_SI (conn_obj (tespy_charge s) c)"
    by (auto simp add: raw_mass_flow_def)
  with n1 n2 s exc r small c that show ?thesis by blast
qed

lemma raw_discharging_elim:
  assumes "raw_mass_flow solve self power' pressure ''discharging'' = Some (m_raw, s1)"
  obtains n1 n2 r c where
    "imp_bus_set_P (power_bus_discharge self) (Some power') (tespy_discharge self) = Inr n1"
    "imp_conn_set_p_m (storage_connection_discharge self) (Some pressure) None n1 = Inr n2"
    "solve_discharge solve (Offdesign_design_path (wdir self @ ''discharge_design''))
       (self\<lparr>tespy_discharge := n2\<rparr>) = (None, s1)"
    "res_last (tespy_discharge s1) = Inr r" "\<not> r > 1 / 1000"
    "cas_discharge s1 = Some c"
    "m_raw = conn_m_val_SI (conn_obj (tespy_discharge s1) c)"
proof -
  let ?b = "imp_bus_set_P (power_bus_discharge self) (Some power') (tespy_discharge self)"
  from assms obtain n1 where n1: "?b = Inr n1"
    by (cases ?b) (simp_all add: raw_mass_flow_def)
  let ?c = "imp_conn_set_p_m (storage_connection_discharge self) (Some pressure) None n1"
  from assms n1 obtain n2 where n2: "?c = Inr n2"
    by (cases ?c) (simp_all add: raw_mass_flow_def)
  let ?s = "solve_discharge solve (Offdesign_design_path (wdir self @ ''discharge_design''))
              (self\<lparr>tespy_discharge := n2\<rparr>)"
  obtain exc s where s: "?s = (exc, s)" by (cases ?s)
  from assms n1 n2 s have exc: "exc = None"
    by (cases exc) (simp_all add: raw_mass_flow_def)
  let ?r = "res_last (tespy_discharge s)"
  from assms n1 n2 s exc obtain r where r: "?r = Inr r"
    by (cases ?r) (simp_all add: raw_mass_flow_def)
  from assms n1 n2 s exc r have small: "\<not> r > 1 / 1000"
    by (cases "r > 1 / 1000") (simp_all add: raw_mass_flow_def)
  from assms n1 n2 s exc r small obtain c where c: "cas_discharge s = Some c"
    by (cases "cas_discharge s") (simp_all add: raw_mass_flow_def)
  from assms n1 n2 s exc r small c
  have "s1 = s" "m_raw = conn_m_val_SI (conn_obj (tespy_discharge s) c)"
    by (auto simp add: raw_mass_flow_def)
  with n1 n2 s exc r small c that show ?thesis by blast
qed

lemma raw_mode:
  assumes "raw_mass_flow solve self power' pressure mode = Some (m_raw, s1)"
  shows "mode = ''charging'' \<or> mode = ''discharging''"
proof (rule ccontr)
  assume "\<not> ?thesis"
  then have "raw_mass_flow solve self power' pressure mode = None"
    by (simp add: raw_mass_flow_def)
  with assms show False by simp
qed

text \<open>Setting a bus or a connection leaves the components alone.\<close>

lemma comp_L_imp_bus_set_P:
  "imp_bus_set_P key v n = Inr n' \<Longrightarrow> comp_L n' = comp_L n"
  by (auto simp add: imp_bus_set_P_def bus_set_P_def split: sum.splits)

lemma comp_L_imp_conn_set_p_m:
  "imp_conn_set_p_m key pv mv n = Inr n' \<Longrightarrow> comp_L n' = comp_L n"
  by (auto simp add: imp_conn_set_p_m_def conn_set_p_def conn_set_m_def split: sum.splits)

text \<open>With no \<^verbatim>\<open>wdir\<close> among the builtins, the constructor ends at its first read of that name.\<close>

lemma init_unfold:
  assumes "builtins env ''wdir'' = None"
  shows "init env solve cd d n pmax pmin =
           (case read_ctrl env (working_dir cd @ powerplant_path cd @ scenario cd @
                                 ''.powerplant_ctrl.json'') of
              Inl e \<Rightarrow> Inl e
            | Inr js \<Rightarrow> Inl (NameError ''wdir''))"
proof -
  have gp: "global_plus env ''wdir'' s = Inl (NameError ''wdir'')" for s
    using assms by (simp add: global_plus_def load_global_def module_globals_def)
  show ?thesis
    by (simp add: init_def gp Let_def cong: sum.case_cong)
qed

text \<open>The definitions that evaluate the example.\<close>

lemmas example_eval =
  raw_mass_flow_def imp_bus_set_P_def lookup_def imp_conn_set_p_m_def bus_set_P_def
  conn_set_p_def conn_set_m_def solve_charge_def linear_solver_def res_last_def
  example_plant_cas_def example_plant_def example_network_def clamp_notice_def say_def
  first_bus_set_P_def set_interface_charge_def first_bus_P_val_def max_mass_flow_def
  nominal_power_def Let_def

section \<open>Properties of the root finder\<close>

text \<open>
  What does hold of a value returned through the loop condition, with the counter within
  the cap: for \<open>valmin \<le> valmax\<close> it lies within the bounds, and it is the clamped update
  of a point whose residual is below \<^verbatim>\<open>1e-5\<close>. When the counter exceeds the cap, the
  result is 0.
\<close>

lemma newton_returns:
  assumes run: "newton_run func deriv params k kwargs = Inr (x, n)"
    and bounds: "kwargs_get (valmin kwargs) 0 \<le> kwargs_get (valmax kwargs) 3000"
  shows "newton func deriv params k kwargs = Inr x
       \<and> (n \<le> kwargs_get (imax kwargs) 10 \<longrightarrow>
            kwargs_get (valmin kwargs) 0 \<le> x \<and> x \<le> kwargs_get (valmax kwargs) 3000 \<and>
            (\<exists>y. \<bar>k - func params y\<bar> < 1 / 100000 \<and> deriv params y \<noteq> 0 \<and>
                 x = newton_update (func params) (deriv params) k
                       (kwargs_get (valmin kwargs) 0) (kwargs_get (valmax kwargs) 3000) y))
       \<and> (kwargs_get (imax kwargs) 10 < n \<longrightarrow> x = 0)"
proof -
  have "newton func deriv params k kwargs = Inr x"
    using run by (simp add: newton_def)
  moreover have "\<bar>1::real\<bar> < 1 / 100000 \<longrightarrow>
      0 \<le> kwargs_get (imax kwargs) 10 \<and>
      (\<exists>y. 1 = k - func params y \<and> deriv params y \<noteq> 0 \<and>
           kwargs_get (val0 kwargs) 200 =
           newton_update (func params) (deriv params) k
             (kwargs_get (valmin kwargs) 0) (kwargs_get (valmax kwargs) 3000) y)"
    by simp
  ultimately show ?thesis
    using newton_loop_post [OF run [unfolded newton_run_def] bounds] by blast
qed

text \<open>
  Claim C4 does not hold of the code. The docstring of \<^verbatim>\<open>newton\<close> promises a value
  \<^verbatim>\<open>val\<close> with \<^verbatim>\<open>func(params, val) = k\<close> up to the tolerance, but the loop tests the
  residual computed before the last update and returns the value after it. On the cubic
  \<^verbatim>\<open>(x - 200)**3 + (x - 200) / 1e6 + 1e-6\<close> with target 0 and the default keywords,
  the residual at the starting value 200 is \<^verbatim>\<open>-1e-6\<close>, the update leads to 199, the
  loop ends with the counter at 1, and the residual at the value returned is 1.
\<close>

theorem newton_returns_off_tolerance:
  "newton_run flat_cubic flat_cubic_deriv () 0 no_kwargs = Inr (199, 1)
   \<and> newton flat_cubic flat_cubic_deriv () 0 no_kwargs = Inr 199
   \<and> \<bar>0 - flat_cubic () 200\<bar> < 1 / 100000
   \<and> \<not> \<bar>0 - flat_cubic () 199\<bar> < 1 / 100000"
  by (simp add: newton_def flat_cubic_run) (simp add: flat_cubic_def)

section \<open>Properties of the pressure and mode checks\<close>

text \<open>
  Claim C2. For every power, mass flow, mode and method string: a pressure below
  \<open>p_min - 1e-4\<close> makes \<^verbatim>\<open>get_mass_flow\<close> return \<open>(0, 0)\<close> and \<^verbatim>\<open>get_power\<close> return 0,
  each after the below-minimum message and nothing else; with \<open>p_min \<le> p_max\<close>, a
  pressure above \<open>p_max + 1e-4\<close> does the same with the above-maximum message.
\<close>

theorem pressure_out_of_range:
  "(pressure < p_min self - 1 / 10000 \<longrightarrow>
      get_mass_flow solve self power' pressure mode =
        (Inr (Tuple2 0 0),
         say Logging_error (Pressure_below_minimum (p_min self) pressure) self)
    \<and> get_power solve self massflow pressure mode =
        (Inr 0, say Stdout (Pressure_below_minimum (p_min self) pressure) self))
   \<and> (p_min self \<le> p_max self \<longrightarrow> pressure > p_max self + 1 / 10000 \<longrightarrow>
      get_mass_flow solve self power' pressure mode =
        (Inr (Tuple2 0 0),
         say Logging_error (Pressure_above_maximum (p_max self) pressure) self)
    \<and> get_power solve self massflow pressure mode =
        (Inr 0, say Stdout (Pressure_above_maximum (p_max self) pressure) self))"
  by (simp add: get_mass_flow.simps [of solve self power' pressure mode]
        get_power.simps [of solve self massflow pressure mode])

theorem pressure_out_of_range_witness:
  "get_mass_flow failing_solver (example_plant ''steam'') 500 10 ''idle'' =
     (Inr (Tuple2 0 0),
      say Logging_error (Pressure_below_minimum 50 10) (example_plant ''steam''))
   \<and> get_power failing_solver (example_plant ''steam'') 5 10 ''idle'' =
     (Inr 0, say Stdout (Pressure_below_minimum 50 10) (example_plant ''steam''))
   \<and> get_mass_flow failing_solver (example_plant ''steam'') 500 200 ''idle'' =
     (Inr (Tuple2 0 0),
      say Logging_error (Pressure_above_maximum 150 200) (example_plant ''steam''))
   \<and> get_power failing_solver (example_plant ''steam'') 5 200 ''idle'' =
     (Inr 0, say Stdout (Pressure_above_maximum 150 200) (example_plant ''steam''))"
  using pressure_out_of_range [of 10 "example_plant ''steam''" failing_solver 500 "''idle''" 5]
    pressure_out_of_range [of 200 "example_plant ''steam''" failing_solver 500 "''idle''" 5]
  by simp

text \<open>
  Claim C6 fails as stated: with a pressure out of range, a mode that is neither
  charging nor discharging raises nothing; the pressure check returns first.
\<close>

theorem invalid_mode_counterexample:
  "fst (get_mass_flow failing_solver (example_plant ''tespy'') 500 10 ''idle'')
     = Inr (Tuple2 0 0)
   \<and> fst (get_power failing_solver (example_plant ''tespy'') 5 10 ''idle'') = Inr 0"
  by (simp add: get_mass_flow.simps [of _ _ _ _ "''idle''"]
        get_power.simps [of _ _ _ _ "''idle''"])

text \<open>
  Claim C6, amended. When the pressure is within \<open>[p_min - 1e-4, p_max + 1e-4]\<close> and the
  method is tespy or spline, \<^verbatim>\<open>get_mass_flow\<close> and \<^verbatim>\<open>get_power\<close> called with a mode outside
  charging and discharging raise \<^verbatim>\<open>ValueError\<close> and leave the instance as it was.
\<close>

theorem invalid_mode_in_range:
  assumes "p_min self - 1 / 10000 \<le> pressure" and "pressure \<le> p_max self + 1 / 10000"
    and "method self = ''tespy'' \<or> method self = ''spline''"
    and "mode \<noteq> ''charging''" and "mode \<noteq> ''discharging''"
  shows "get_mass_flow solve self power' pressure mode =
           (Inl (ValueError ''Mode must be charging or discharging.''), self)
       \<and> get_power solve self massflow pressure mode =
           (Inl (ValueError ''Mode must be charge or discharge.''), self)"
  using assms
  by (auto simp add: get_mass_flow.simps [of solve self power' pressure mode]
        get_power.simps [of solve self massflow pressure mode])

theorem invalid_mode_in_range_witness:
  "get_mass_flow failing_solver (example_plant ''spline'') 500 100 ''idle'' =
     (Inl (ValueError ''Mode must be charging or discharging.''), example_plant ''spline'')
   \<and> get_power failing_solver (example_plant ''spline'') 5 100 ''idle'' =
     (Inl (ValueError ''Mode must be charge or discharge.''), example_plant ''spline'')"
  using invalid_mode_in_range
          [of "example_plant ''spline''" 100 "''idle''" failing_solver 500 5]
  by simp

section \<open>Properties of the simulation strategy\<close>

text \<open>
  Claim C7. Under the tespy method, for a pressure within range and a power whose
  magnitude is below one hundredth of the magnitude of the mode's nominal power,
  \<^verbatim>\<open>get_mass_flow\<close> returns \<open>(0, 0)\<close> and leaves the instance untouched: no attribute is
  set on a network and the solver is not called, whatever the solver is.
\<close>

theorem small_power_short_circuit:
  assumes "p_min self - 1 / 10000 \<le> pressure" and "pressure \<le> p_max self + 1 / 10000"
    and "method self = ''tespy''"
    and "mode = ''charging'' \<or> mode = ''discharging''"
    and "\<bar>power'\<bar> < \<bar>nominal_power self mode\<bar> / 100"
  shows "get_mass_flow solve self power' pressure mode = (Inr (Tuple2 0 0), self)
       \<and> calls (snd (get_mass_flow solve self power' pressure mode)) = calls self"
  using assms
  by (auto simp add: get_mass_flow.simps [of solve self power' pressure mode]
        nominal_power_def)

theorem small_power_short_circuit_witness:
  "get_mass_flow failing_solver (example_plant ''tespy'') (- 5) 100 ''charging'' =
     (Inr (Tuple2 0 0), example_plant ''tespy'')
   \<and> calls (snd (get_mass_flow failing_solver (example_plant ''tespy'') (- 5) 100
                   ''charging'')) = []"
  using small_power_short_circuit
          [of "example_plant ''tespy''" 100 "''charging''" "- 5" failing_solver]
  by (simp add: nominal_power_def)

text \<open>
  Claim C10. Under the tespy method in charging mode, with the pressure within range,
  a power of at least one hundredth of the nominal power in magnitude, and the bus and
  the storage connection of the configuration present in the network: as long as the
  attribute \<^verbatim>\<open>cas_charge\<close> has not been set, \<^verbatim>\<open>get_mass_flow\<close> returns \<open>(0, 0)\<close> for every
  such input and every solver, writes the message of a failed solve, and leaves the
  attribute unset.
\<close>

theorem charging_without_cas:
  assumes "p_min self - 1 / 10000 \<le> pressure" and "pressure \<le> p_max self + 1 / 10000"
    and "method self = ''tespy''"
    and "\<bar>power_nominal_charge self\<bar> / 100 \<le> \<bar>power'\<bar>"
    and "cas_charge self = None"
    and "power_bus_charge self \<in> dom (imp_busses (tespy_charge self))"
    and "storage_connection_charge self \<in> dom (imp_conns (tespy_charge self))"
  shows "fst (get_mass_flow solve self power' pressure ''charging'') = Inr (Tuple2 0 0)
       \<and> cas_charge (snd (get_mass_flow solve self power' pressure ''charging'')) = None
       \<and> diagnostics (snd (get_mass_flow solve self power' pressure ''charging'')) =
           diagnostics self @ [(Logging_error, No_solution power' pressure)]"
proof -
  from assms(6) obtain n1 where
    n1: "imp_bus_set_P (power_bus_charge self) (Some power') (tespy_charge self) = Inr n1"
    by (auto simp add: imp_bus_set_P_def lookup_def)
  from assms(6) have "imp_conns n1 = imp_conns (tespy_charge self)"
    using n1 by (auto simp add: imp_bus_set_P_def lookup_def bus_set_P_def)
  with assms(7) obtain n2 where
    n2: "imp_conn_set_p_m (storage_connection_charge self) (Some pressure) None n1 = Inr n2"
    by (auto simp add: imp_conn_set_p_m_def lookup_def)
  obtain exc s1 where
    s1: "solve_charge solve (Offdesign_design_path (wdir self @ ''charge_design''))
           (self\<lparr>tespy_charge := n2\<rparr>) = (exc, s1)"
    by (cases "solve_charge solve (Offdesign_design_path (wdir self @ ''charge_design''))
           (self\<lparr>tespy_charge := n2\<rparr>)")
  have cas: "cas_charge s1 = None" and diag: "diagnostics s1 = diagnostics self"
    using solve_charge_fields(3,4) [OF s1] assms(5) by simp_all
  have "get_mass_flow solve self power' pressure ''charging'' =
          failed Logging_error power' pressure s1"
    using assms(1-4)
    by (subst get_mass_flow_charging_solved [OF _ _ _ _ n1 n2 s1])
       (simp_all add: cas split: option.splits sum.splits)
  then show ?thesis
    by (simp add: failed_def say_def cas diag)
qed

theorem charging_without_cas_witness:
  "fst (get_mass_flow linear_solver (example_plant ''tespy'') (- 1000) 100 ''charging'')
     = Inr (Tuple2 0 0)
   \<and> cas_charge (snd (get_mass_flow linear_solver (example_plant ''tespy'') (- 1000) 100
                        ''charging'')) = None
   \<and> diagnostics (snd (get_mass_flow linear_solver (example_plant ''tespy'') (- 1000) 100
                          ''charging'')) = [(Logging_error, No_solution (- 1000) 100)]"
  using charging_without_cas [of "example_plant ''tespy''" 100 "- 1000" linear_solver]
  by (simp add: example_plant_def example_network_def)

text \<open>
  Claim C5 fails as stated on the spline path: the example surface gives a mass flow of
  one half for a power of \<open>-100\<close>, below the minimum of 1, and \<^verbatim>\<open>get_mass_flow\<close> returns
  that mass flow.
\<close>

theorem spline_threshold_counterexample:
  "fst (get_mass_flow failing_solver (example_plant ''spline'') (- 100) 100 ''charging'')
     = Inr (Scalar (1 / 2))
   \<and> massflow_min_rel (example_plant ''spline'')
       * max_mass_flow (example_plant ''spline'') ''charging'' = 1"
  by (subst get_mass_flow.simps)
     (simp add: spline_mass_flow_def newton_def newton_run_def no_kwargs_def kwargs_get_def
        newton_loop_unfold newton_update_def example_spline_def max_mass_flow_def)

text \<open>
  Claim C5, amended to the tespy method. For a pressure within range and either mode, if
  the off-design solve resolves a raw mass flow whose magnitude is below
  \<open>massflow_min_rel\<close> times the mode's maximum mass flow, \<^verbatim>\<open>get_mass_flow\<close> returns
  \<open>(0, 0)\<close>.
\<close>

theorem tespy_threshold_reject:
  assumes "p_min self - 1 / 10000 \<le> pressure" and "pressure \<le> p_max self + 1 / 10000"
    and "method self = ''tespy''"
    and "raw_mass_flow solve self power' pressure mode = Some (m_raw, s1)"
    and "\<bar>m_raw\<bar> < massflow_min_rel self * max_mass_flow self mode"
  shows "fst (get_mass_flow solve self power' pressure mode) = Inr (Tuple2 0 0)"
  using raw_mode [OF assms(4)]
proof
  assume c: "mode = ''charging''"
  show ?thesis
  proof (cases "\<bar>power'\<bar> < \<bar>power_nominal_charge self / 100\<bar>")
    case True
    with assms(1-3) c show ?thesis by (subst get_mass_flow.simps) simp
  next
    case False
    from assms(4) [unfolded c] obtain n1 n2 r k where
      ch: "imp_bus_set_P (power_bus_charge self) (Some power') (tespy_charge self) = Inr n1"
        "imp_conn_set_p_m (storage_connection_charge self) (Some pressure) None n1 = Inr n2"
        "solve_charge solve (Offdesign_design_path (wdir self @ ''charge_design''))
           (self\<lparr>tespy_charge := n2\<rparr>) = (None, s1)"
        "res_last (tespy_charge s1) = Inr r" "\<not> r > 1 / 1000"
        "cas_charge s1 = Some k"
        "m_raw = conn_m_val_SI (conn_obj (tespy_charge s1) k)"
      by (rule raw_charging_elim)
    from assms(5) c have "m_raw < massflow_min_rel self * massflow_charge_max self"
      by (simp add: max_mass_flow_def)
    with assms(1-3) False ch show ?thesis
      unfolding c
      by (subst get_mass_flow_charging_solved [OF _ _ _ _ ch(1) ch(2) ch(3)]) simp_all
  qed
next
  assume d: "mode = ''discharging''"
  then have nc: "mode \<noteq> ''charging''" by simp
  show ?thesis
  proof (cases "\<bar>power'\<bar> < \<bar>power_nominal_discharge self / 100\<bar>")
    case True
    with assms(1-3) d show ?thesis by (subst get_mass_flow.simps) simp
  next
    case False
    from assms(4) [unfolded d] obtain n1 n2 r k where
      ch: "imp_bus_set_P (power_bus_discharge self) (Some power') (tespy_discharge self) = Inr n1"
        "imp_conn_set_p_m (storage_connection_discharge self) (Some pressure) None n1 = Inr n2"
        "solve_discharge solve (Offdesign_design_path (wdir self @ ''discharge_design''))
           (self\<lparr>tespy_discharge := n2\<rparr>) = (None, s1)"
        "res_last (tespy_discharge s1) = Inr r" "\<not> r > 1 / 1000"
        "cas_discharge s1 = Some k"
        "m_raw = conn_m_val_SI (conn_obj (tespy_discharge s1) k)"
      by (rule raw_discharging_elim)
    from assms(5) d have "m_raw < massflow_min_rel self * massflow_discharge_max self"
      by (simp add: max_mass_flow_def)
    with assms(1-3) False ch show ?thesis
      unfolding d
      by (subst get_mass_flow_discharging_solved [OF _ _ _ _ ch(1) ch(2) ch(3)]) simp_all
  qed
qed

theorem tespy_threshold_reject_witness:
  "fst (get_mass_flow linear_solver example_plant_cas (- 100) 100 ''charging'')
     = Inr (Tuple2 0 0)"
proof -
  let ?s1 = "snd (the (raw_mass_flow linear_solver example_plant_cas (- 100) 100 ''charging''))"
  have raw: "raw_mass_flow linear_solver example_plant_cas (- 100) 100 ''charging''
               = Some (1 / 2, ?s1)"
    by (simp add: example_eval)
  have h: "p_min example_plant_cas - 1 / 10000 \<le> 100"
    "100 \<le> p_max example_plant_cas + 1 / 10000"
    "method example_plant_cas = ''tespy''"
    by (simp_all add: example_plant_cas_def)
  have small: "\<bar>1 / 2 :: real\<bar>
      < massflow_min_rel example_plant_cas * max_mass_flow example_plant_cas ''charging''"
    by (simp add: example_plant_cas_def max_mass_flow_def)
  show ?thesis
    by (rule tespy_threshold_reject [OF h raw small])
qed

text \<open>
  Claim C1 fails as stated on the spline path: the example surface gives a mass flow of
  20 for a power of \<open>-4000\<close>, above the maximum of 10, and \<^verbatim>\<open>get_mass_flow\<close> returns
  that mass flow alone, neither clamped nor paired with a power.
\<close>

theorem spline_clamp_counterexample:
  "fst (get_mass_flow failing_solver (example_plant ''spline'') (- 4000) 100 ''charging'')
     = Inr (Scalar 20)
   \<and> max_mass_flow (example_plant ''spline'') ''charging'' = 10"
  by (subst get_mass_flow.simps)
     (simp add: spline_mass_flow_def newton_def newton_run_def no_kwargs_def kwargs_get_def
        newton_loop_unfold newton_update_def example_spline_def max_mass_flow_def)

text \<open>
  Claim C1, amended to the tespy method. For a pressure within range, either mode and a
  power of at least one hundredth of the nominal power in magnitude: if the off-design
  solve resolves a raw mass flow above the mode's maximum mass flow (and not below the
  minimum), and \<^verbatim>\<open>get_power\<close> at that maximum returns a power, then \<^verbatim>\<open>get_mass_flow\<close>
  returns the maximum and that power, and leaves the instance as \<^verbatim>\<open>get_power\<close> left it.
\<close>

theorem tespy_ceiling_clamp:
  assumes "p_min self - 1 / 10000 \<le> pressure" and "pressure \<le> p_max self + 1 / 10000"
    and "method self = ''tespy''"
    and "\<bar>nominal_power self mode\<bar> / 100 \<le> \<bar>power'\<bar>"
    and "raw_mass_flow solve self power' pressure mode = Some (m_raw, s1)"
    and "max_mass_flow self mode < m_raw"
    and "massflow_min_rel self * max_mass_flow self mode \<le> m_raw"
    and "get_power solve (clamp_notice mode power' pressure s1)
           (max_mass_flow self mode) pressure mode = (Inr pw, s2)"
  shows "get_mass_flow solve self power' pressure mode =
           (Inr (Tuple2 (max_mass_flow self mode) pw), s2)"
  using raw_mode [OF assms(5)]
proof
  assume c: "mode = ''charging''"
  from assms(5) [unfolded c] obtain n1 n2 r k where
    ch: "imp_bus_set_P (power_bus_charge self) (Some power') (tespy_charge self) = Inr n1"
      "imp_conn_set_p_m (storage_connection_charge self) (Some pressure) None n1 = Inr n2"
      "solve_charge solve (Offdesign_design_path (wdir self @ ''charge_design''))
         (self\<lparr>tespy_charge := n2\<rparr>) = (None, s1)"
      "res_last (tespy_charge s1) = Inr r" "\<not> r > 1 / 1000"
      "cas_charge s1 = Some k"
      "m_raw = conn_m_val_SI (conn_obj (tespy_charge s1) k)"
    by (rule raw_charging_elim)
  have gp: "get_power solve (say Logging_warning (Mass_flow_above_maximum power' pressure) s1)
              (massflow_charge_max self) pressure ''charging'' = (Inr pw, s2)"
    using assms(8) c by (simp add: clamp_notice_def max_mass_flow_def)
  from assms(4,6,7) c have
    "\<not> \<bar>power'\<bar> < \<bar>power_nominal_charge self / 100\<bar>"
    "\<not> m_raw < massflow_min_rel self * massflow_charge_max self"
    "m_raw > massflow_charge_max self"
    by (simp_all add: nominal_power_def max_mass_flow_def)
  with assms(1-3) ch gp show ?thesis
    unfolding c
    by (subst get_mass_flow_charging_solved [OF _ _ _ _ ch(1) ch(2) ch(3)])
       (simp_all add: max_mass_flow_def)
next
  assume d: "mode = ''discharging''"
  from assms(5) [unfolded d] obtain n1 n2 r k where
    ch: "imp_bus_set_P (power_bus_discharge self) (Some power') (tespy_discharge self) = Inr n1"
      "imp_conn_set_p_m (storage_connection_discharge self) (Some pressure) None n1 = Inr n2"
      "solve_discharge solve (Offdesign_design_path (wdir self @ ''discharge_design''))
         (self\<lparr>tespy_discharge := n2\<rparr>) = (None, s1)"
      "res_last (tespy_discharge s1) = Inr r" "\<not> r > 1 / 1000"
      "cas_discharge s1 = Some k"
      "m_raw = conn_m_val_SI (conn_obj (tespy_discharge s1) k)"
    by (rule raw_discharging_elim)
  have gp: "get_power solve (say Stdout (Mass_flow_above_maximum power' pressure) s1)
              (massflow_discharge_max self) pressure ''discharging'' = (Inr pw, s2)"
    using assms(8) d by (simp add: clamp_notice_def max_mass_flow_def)
  from assms(4,6,7) d have
    "\<not> \<bar>power'\<bar> < \<bar>power_nominal_discharge self / 100\<bar>"
    "\<not> m_raw < massflow_min_rel self * massflow_discharge_max self"
    "m_raw > massflow_discharge_max self"
    by (simp_all add: nominal_power_def max_mass_flow_def)
  with assms(1-3) ch gp show ?thesis
    unfolding d
    by (subst get_mass_flow_discharging_solved [OF _ _ _ _ ch(1) ch(2) ch(3)])
       (simp_all add: max_mass_flow_def)
qed

theorem tespy_ceiling_clamp_witness:
  "fst (get_mass_flow linear_solver example_plant_cas (- 4000) 100 ''charging'')
     = Inr (Tuple2 10 2000)"
proof -
  let ?s1 = "snd (the (raw_mass_flow linear_solver example_plant_cas (- 4000) 100 ''charging''))"
  let ?g = "get_power linear_solver (clamp_notice ''charging'' (- 4000) 100 ?s1)
              (max_mass_flow example_plant_cas ''charging'') 100 ''charging''"
  have raw: "raw_mass_flow linear_solver example_plant_cas (- 4000) 100 ''charging''
               = Some (20, ?s1)"
    by (simp add: example_eval)
  have "fst ?g = Inr 2000"
    by (subst get_power.simps) (simp add: example_eval)
  then have gp: "?g = (Inr 2000, snd ?g)"
    by (simp add: prod_eq_iff)
  have h: "p_min example_plant_cas - 1 / 10000 \<le> 100"
    "100 \<le> p_max example_plant_cas + 1 / 10000"
    "method example_plant_cas = ''tespy''"
    "\<bar>nominal_power example_plant_cas ''charging''\<bar> / 100 \<le> \<bar>- 4000\<bar>"
    by (simp_all add: example_plant_cas_def nominal_power_def)
  have m: "max_mass_flow example_plant_cas ''charging'' < 20"
    "massflow_min_rel example_plant_cas * max_mass_flow example_plant_cas ''charging'' \<le> 20"
    "max_mass_flow example_plant_cas ''charging'' = 10"
    by (simp_all add: example_plant_cas_def max_mass_flow_def)
  show ?thesis
    using tespy_ceiling_clamp [OF h raw m(1) m(2) gp] by (simp add: m(3))
qed

section \<open>Properties of \<^verbatim>\<open>get_power\<close>\<close>

text \<open>
  Claim C8 fails as stated. The clamp of \<^verbatim>\<open>get_power\<close> has a margin and exists only on
  the tespy path: in the example, a mass flow of \<open>10.00005\<close> is above the maximum of 10 and
  yet no clamp is entered, the solve runs at that mass flow and returns the power
  \<open>2000.01\<close>; and under the spline method a mass flow of 12 returns the surface's power
  \<open>-2400\<close>, again without a clamp.
\<close>

theorem get_power_clamp_counterexample:
  "max_mass_flow example_plant_cas ''charging'' < 10 + 1 / 20000
   \<and> fst (get_power linear_solver example_plant_cas (10 + 1 / 20000) 100 ''charging'')
       = Inr (2000 + 1 / 100)
   \<and> clamp_count (snd (get_power linear_solver example_plant_cas (10 + 1 / 20000) 100
                         ''charging''))
       = clamp_count example_plant_cas
   \<and> max_mass_flow (example_plant ''spline'') ''charging'' < 12
   \<and> fst (get_power failing_solver (example_plant ''spline'') 12 100 ''charging'')
       = Inr (- 2400)
   \<and> clamp_count (snd (get_power failing_solver (example_plant ''spline'') 12 100
                         ''charging''))
       = clamp_count (example_plant ''spline'')"
proof -
  have a: "max_mass_flow example_plant_cas ''charging'' < 10 + 1 / 20000"
    "max_mass_flow (example_plant ''spline'') ''charging'' < 12"
    by (simp_all add: max_mass_flow_def example_plant_cas_def)
  have b: "fst (get_power linear_solver example_plant_cas (10 + 1 / 20000) 100 ''charging'')
             = Inr (2000 + 1 / 100)"
    by (subst get_power.simps) (simp add: example_eval)
  have c: "clamp_count (snd (get_power linear_solver example_plant_cas (10 + 1 / 20000) 100
                               ''charging'')) = clamp_count example_plant_cas"
    by (rule get_power_no_clamp) (simp_all add: example_plant_cas_def max_mass_flow_def)
  have g: "get_mass_flow failing_solver (example_plant ''spline'') (- 2400) 100 ''charging''
             = (Inr (Scalar 12), example_plant ''spline'')"
    by (subst get_mass_flow.simps)
       (simp add: spline_mass_flow_def newton_def newton_run_def no_kwargs_def kwargs_get_def
          newton_loop_unfold newton_update_def example_spline_def)
  have d: "get_power failing_solver (example_plant ''spline'') 12 100 ''charging''
             = (Inr (- 2400), example_plant ''spline'')"
    by (subst get_power.simps) (simp add: example_spline_def g)
  show ?thesis using a b c d by simp
qed

text \<open>
  Claim C8, amended. Under the tespy method, for a pressure within range, either mode and
  a mass flow above the mode's maximum by more than \<^verbatim>\<open>1e-4\<close> (and not rejected as below
  the minimum), \<^verbatim>\<open>get_power\<close> is its own call at the maximum, and that call does not
  enter the ceiling clamp again: the clamp is entered exactly once.
\<close>

theorem get_power_clamp_once:
  assumes "p_min self - 1 / 10000 \<le> pressure" and "pressure \<le> p_max self + 1 / 10000"
    and "method self = ''tespy''"
    and "mode = ''charging'' \<or> mode = ''discharging''"
    and "max_mass_flow self mode + 1 / 10000 < massflow"
    and "massflow_min_rel self * max_mass_flow self mode - 1 / 10000 \<le> massflow"
  shows "get_power solve self massflow pressure mode =
           get_power solve
             (say Stdout (Input_massflow_above_maximum (max_mass_flow self mode) massflow) self)
             (max_mass_flow self mode) pressure mode
       \<and> clamp_count (snd (get_power solve self massflow pressure mode)) = clamp_count self + 1"
proof -
  let ?s = "say Stdout (Input_massflow_above_maximum (max_mass_flow self mode) massflow) self"
  have step: "get_power solve self massflow pressure mode =
                get_power solve ?s (max_mass_flow self mode) pressure mode"
    using assms(4)
  proof
    assume "mode = ''charging''"
    with assms show ?thesis
      by (subst get_power.simps) (simp add: max_mass_flow_def Let_def)
  next
    assume "mode = ''discharging''"
    with assms show ?thesis
      by (subst get_power.simps) (simp add: max_mass_flow_def Let_def)
  qed
  have "method ?s = ''tespy''" using assms(3) by (simp add: say_def)
  moreover have "\<not> max_mass_flow self mode > max_mass_flow ?s mode + 1 / 10000"
    by (simp add: say_def max_mass_flow_def)
  ultimately have "clamp_count (snd (get_power solve ?s (max_mass_flow self mode) pressure mode))
                     = clamp_count ?s"
    by (rule get_power_no_clamp)
  moreover have "clamp_count ?s = clamp_count self + 1"
    by (simp add: clamp_count_say)
  ultimately show ?thesis using step by simp
qed

theorem get_power_clamp_once_witness:
  "get_power failing_solver (example_plant ''tespy'') 12 100 ''charging'' =
     get_power failing_solver
       (say Stdout (Input_massflow_above_maximum 10 12) (example_plant ''tespy''))
       10 100 ''charging''
   \<and> clamp_count (snd (get_power failing_solver (example_plant ''tespy'') 12 100 ''charging''))
       = 0 + 1"
proof -
  have m: "max_mass_flow (example_plant ''tespy'') ''charging'' = 10"
    by (simp add: max_mass_flow_def)
  have c: "clamp_count (example_plant ''tespy'') = 0"
    by (simp add: clamp_count_def)
  have h: "p_min (example_plant ''tespy'') - 1 / 10000 \<le> 100"
    "100 \<le> p_max (example_plant ''tespy'') + 1 / 10000"
    "method (example_plant ''tespy'') = ''tespy''"
    "''charging'' = ''charging'' \<or> ''charging'' = ''discharging''"
    "max_mass_flow (example_plant ''tespy'') ''charging'' + 1 / 10000 < 12"
    "massflow_min_rel (example_plant ''tespy'')
       * max_mass_flow (example_plant ''tespy'') ''charging'' - 1 / 10000 \<le> 12"
    by (simp_all add: m)
  show ?thesis
    using get_power_clamp_once [OF h, of failing_solver] unfolding m c .
qed

section \<open>Properties of the calibration and of the constructor\<close>

text \<open>
  Claim C3 does not hold of the code. Whenever \<^verbatim>\<open>power_plant_layout\<close> returns, the state
  saved as \<^verbatim>\<open>discharge_design\<close> is the state of the charging network, written by a call
  of \<^verbatim>\<open>save\<close> on the charging network, and the discharging network went into its design
  solve with the pipe length it had before: lines 109 and 111 address
  \<^verbatim>\<open>self.tespy_charge\<close> where lines 99 and 101 do so for charging.
\<close>

theorem layout_saves_charging_state:
  assumes "power_plant_layout solve self = (Inr (), s)"
  shows "saved s (wdir self @ ''discharge_design'') = Some (tespy_charge s)
       \<and> calls s = calls self @
           [Solve Charge Design, Save Charge (wdir self @ ''charge_design''),
            Solve Discharge Design, Save Charge (wdir self @ ''discharge_design'')]
       \<and> (\<exists>files d. tespy_discharge s = snd (solve files Design d)
                    \<and> comp_L d = comp_L (tespy_discharge self))"
  using assms
  apply (clarsimp simp add: power_plant_layout_def solve_charge_eq solve_discharge_eq Let_def
      say_def split: sum.splits option.splits)
  apply (drule comp_L_imp_bus_set_P [where n = "tespy_discharge self"])
  apply (drule comp_L_imp_conn_set_p_m [where key = "storage_connection_discharge self"])
  apply (metis)
  done

theorem layout_saves_charging_state_witness:
  "saved (snd (power_plant_layout linear_solver (example_plant ''tespy''))) ''pp/discharge_design''
     = Some (tespy_charge (snd (power_plant_layout linear_solver (example_plant ''tespy''))))
   \<and> bus_P (bus_obj (tespy_charge
        (snd (power_plant_layout linear_solver (example_plant ''tespy'')))) 0) = Some (- 1000)
   \<and> bus_P (bus_obj (tespy_discharge
        (snd (power_plant_layout linear_solver (example_plant ''tespy'')))) 0) = Some 1000
   \<and> comp_L (tespy_discharge
        (snd (power_plant_layout linear_solver (example_plant ''tespy'')))) 0 = None"
proof -
  let ?r = "power_plant_layout linear_solver (example_plant ''tespy'')"
  have "fst ?r = Inr ()"
    by (simp add: power_plant_layout_def example_eval imp_comp_set_L_def imp_conn_m_val_SI_def
          solve_discharge_def)
  then have r: "?r = (Inr (), snd ?r)" by (simp add: prod_eq_iff)
  have w: "wdir (example_plant ''tespy'') = ''pp/''" by (simp add: example_plant_def)
  have rest: "bus_P (bus_obj (tespy_charge (snd ?r)) 0) = Some (- 1000)
     \<and> bus_P (bus_obj (tespy_discharge (snd ?r)) 0) = Some 1000
     \<and> comp_L (tespy_discharge (snd ?r)) 0 = None"
    by (simp add: power_plant_layout_def example_eval imp_comp_set_L_def imp_conn_m_val_SI_def
          solve_discharge_def)
  from layout_saves_charging_state [OF r] rest show ?thesis by (simp add: w)
qed

text \<open>
  Claim C9. In an interpreter whose builtins do not bind \<^verbatim>\<open>wdir\<close>, the constructor never
  returns an instance, whatever its arguments and whatever the libraries do; and whenever
  the control file can be read, the exception it raises is \<^verbatim>\<open>NameError\<close> for \<^verbatim>\<open>wdir\<close>.
\<close>

theorem init_raises:
  assumes "builtins env ''wdir'' = None"
  shows "(\<exists>e. init env solve cd d n pmax pmin = Inl e)
       \<and> (\<forall>js. read_ctrl env (working_dir cd @ powerplant_path cd @ scenario cd @
                               ''.powerplant_ctrl.json'') = Inr js \<longrightarrow>
               init env solve cd d n pmax pmin = Inl (NameError ''wdir''))"
  unfolding init_unfold [OF assms]
  by (simp split: sum.splits)

theorem init_raises_witness:
  "init example_env linear_solver example_cd 700 1 150 50 = Inl (NameError ''wdir'')"
proof -
  have b: "builtins example_env ''wdir'' = None" by (simp add: example_env_def)
  have r: "read_ctrl example_env (working_dir example_cd @ powerplant_path example_cd @
             scenario example_cd @ ''.powerplant_ctrl.json'') = Inr example_ctrl"
    by (simp add: example_env_def example_cd_def)
  from init_raises [OF b, of linear_solver example_cd 700 1 150 50] r show ?thesis by blast
qed

end
